theory Spec2Isabelle
  imports
    Complex_Main
    "HOL-Library.Word"
    "HOL-Library.Char_ord"
    "HOL-Library.List_Lexorder"
    "HOL-Library.Multiset"
    "HOL-Library.Log_Nat"
begin

text \<open>
  An embedding of three parts of the shipper rollout controller and the properties proved of
  them: the condition algebra of a release status (\<^verbatim>\<open>SetReleaseCondition\<close> and its
  helpers), the resolver of the three target objects of a release
  (\<^verbatim>\<open>TargetObjectsForRelease\<close>), and the pod label shifter of the traffic controller
  (\<^verbatim>\<open>buildClusterReleaseWeights\<close>, \<^verbatim>\<open>SyncCluster\<close> and the functions they call).

  Go functions become HOL functions of the same name. A function that returns
  \<^verbatim>\<open>(value, error)\<close> returns a sum, with the error on the left. A call to the API server
  or to an informer's lister is a function of the environment, given as a record. Loops
  are recursive functions over the slice they range over.
\<close>

section \<open>Release conditions (package release, conditions)\<close>

text \<open>
  A \<^verbatim>\<open>shipper.ReleaseCondition\<close> has five fields. \<^verbatim>\<open>ReleaseConditionType\<close> and
  \<^verbatim>\<open>corev1.ConditionStatus\<close> are Go string types, compared with \<^verbatim>\<open>==\<close> and \<^verbatim>\<open><\<close>
  (bytewise lexicographic, which is the order of \<open>string\<close> here: lists of bytes ordered
  lexicographically). A \<^verbatim>\<open>metav1.Time\<close> is only copied and never inspected by this code:
  it is a number.
\<close>

type_synonym Time = nat

record ReleaseCondition =
  Type :: string
  Status :: string
  LastTransitionTime :: Time
  Reason :: string
  Message :: string

text \<open>Of \<^verbatim>\<open>shipper.ReleaseStatus\<close> the code reads and writes the field \<^verbatim>\<open>Conditions\<close> only.\<close>

record ReleaseStatus =
  Conditions :: "ReleaseCondition list"

text \<open>A \<^verbatim>\<open>ReleaseConditionDiff\<close> holds two pointers, each of which may be nil.\<close>

record ReleaseConditionDiff =
  c1 :: "ReleaseCondition option"
  c2 :: "ReleaseCondition option"

definition NewReleaseConditionDiff ::
  "ReleaseCondition option \<Rightarrow> ReleaseCondition option \<Rightarrow> ReleaseConditionDiff" where
  "NewReleaseConditionDiff a b = \<lparr>c1 = a, c2 = b\<rparr>"

definition IsEmpty :: "ReleaseConditionDiff \<Rightarrow> bool" where
  "IsEmpty d =
     (case (c1 d, c2 d) of
        (None, None) \<Rightarrow> True
      | (None, Some _) \<Rightarrow> False
      | (Some _, None) \<Rightarrow> False
      | (Some a, Some b) \<Rightarrow>
          Type a = Type b \<and> Status a = Status b \<and> Reason a = Reason b \<and> Message a = Message b)"

text \<open>
  \<^verbatim>\<open>GetReleaseCondition\<close> returns a pointer to a copy of the first condition of the given
  type, or nil.
\<close>

fun GetReleaseCondition' :: "ReleaseCondition list \<Rightarrow> string \<Rightarrow> ReleaseCondition option" where
  "GetReleaseCondition' [] condType = None"
| "GetReleaseCondition' (c # cs) condType =
     (if Type c = condType then Some c else GetReleaseCondition' cs condType)"

definition GetReleaseCondition :: "ReleaseStatus \<Rightarrow> string \<Rightarrow> ReleaseCondition option" where
  "GetReleaseCondition status condType = GetReleaseCondition' (Conditions status) condType"

fun filterOutCondition :: "ReleaseCondition list \<Rightarrow> string \<Rightarrow> ReleaseCondition list" where
  "filterOutCondition [] condType = []"
| "filterOutCondition (c # cs) condType =
     (if Type c = condType then filterOutCondition cs condType
      else c # filterOutCondition cs condType)"

text \<open>
  \<^verbatim>\<open>sort.Slice(status.Conditions, less)\<close> with \<^verbatim>\<open>less\<close> comparing the types. The
  standard library's sort is not stable; where no two conditions have the same type
  (which is the case after \<^verbatim>\<open>filterOutCondition\<close> and \<^verbatim>\<open>append\<close> on a list without
  repeated types) every sorting algorithm returns the same list. The model sorts by
  insertion; the results below use of it only that the result is sorted and is a
  rearrangement of the argument (lemmas \<open>sortConditions_mset\<close>, \<open>sortConditions_sorted\<close>).
\<close>

definition sortConditions :: "ReleaseCondition list \<Rightarrow> ReleaseCondition list" where
  "sortConditions cs = sort_key Type cs"

text \<open>
  \<^verbatim>\<open>SetReleaseCondition\<close> mutates the status behind its pointer and returns a diff, nil
  when nothing was written. The model returns the new status and the diff (\<open>None\<close> for
  nil). The diff holds a pointer to the parameter \<^verbatim>\<open>condition\<close>, whose
  \<^verbatim>\<open>LastTransitionTime\<close> the function may overwrite after the diff was built, so the
  diff's second component is the condition as written.
\<close>

definition SetReleaseCondition ::
  "ReleaseStatus \<Rightarrow> ReleaseCondition \<Rightarrow> ReleaseStatus \<times> ReleaseConditionDiff option" where
  "SetReleaseCondition status condition =
     (let currentCond = GetReleaseCondition status (Type condition) in
      if IsEmpty (NewReleaseConditionDiff currentCond (Some condition)) then (status, None)
      else
        let condition' =
              (case currentCond of
                 None \<Rightarrow> condition
               | Some cur \<Rightarrow>
                   if Status cur = Status condition
                   then condition\<lparr>LastTransitionTime := LastTransitionTime cur\<rparr>
                   else condition);
            newConditions = filterOutCondition (Conditions status) (Type condition')
        in (status\<lparr>Conditions := sortConditions (newConditions @ [condition'])\<rparr>,
            Some (NewReleaseConditionDiff currentCond (Some condition'))))"

text \<open>
  \<^verbatim>\<open>RemoveReleaseCondition\<close> takes the status by value and returns nothing: the
  assignment to \<^verbatim>\<open>status.Conditions\<close> changes the callee's copy, and
  \<^verbatim>\<open>filterOutCondition\<close> builds a fresh slice, so the caller's status is what it was.
  The model returns the caller's status after the call.
\<close>

definition RemoveReleaseCondition :: "ReleaseStatus \<Rightarrow> string \<Rightarrow> ReleaseStatus" where
  "RemoveReleaseCondition status condType =
     (let local = status\<lparr>Conditions := filterOutCondition (Conditions status) condType\<rparr>
      in status)"

text \<open>A sequence of calls on one status, starting from a given status.\<close>

datatype ConditionOp = Set ReleaseCondition | Remove string

fun applyConditionOp :: "ReleaseStatus \<Rightarrow> ConditionOp \<Rightarrow> ReleaseStatus" where
  "applyConditionOp status (Set condition) = fst (SetReleaseCondition status condition)"
| "applyConditionOp status (Remove condType) = RemoveReleaseCondition status condType"

definition runConditionOps :: "ReleaseStatus \<Rightarrow> ConditionOp list \<Rightarrow> ReleaseStatus" where
  "runConditionOps status ops = foldl applyConditionOp status ops"

text \<open>At most one condition per type, in ascending order of the types.\<close>

definition conditionsOrdered :: "ReleaseCondition list \<Rightarrow> bool" where
  "conditionsOrdered cs = sorted_wrt (<) (map Type cs)"

section \<open>Target objects of a release (package release)\<close>

text \<open>
  The shipper client is seen through the three \<^verbatim>\<open>List\<close> calls the function makes, each
  taking the namespace and the label selector and returning an error or the matching
  items. The objects themselves are opaque here. The selector
  \<^verbatim>\<open>labels.Set{shipper.ReleaseLabel: relName}.AsSelector()\<close> is the one label pair.
\<close>

type_synonym LabelSelector = "(string \<times> string) list"

record ('it, 'tt, 'ct) ShipperClient =
  InstallationTargets :: "string \<Rightarrow> LabelSelector \<Rightarrow> string + 'it list"
  TrafficTargets :: "string \<Rightarrow> LabelSelector \<Rightarrow> string + 'tt list"
  CapacityTargets :: "string \<Rightarrow> LabelSelector \<Rightarrow> string + 'ct list"

text \<open>
  Modelled from the spec: the label keys and values of package \<^verbatim>\<open>shipperv1\<close>, whose
  declarations are not part of the sources (labels read: app, release, lb; label written:
  traffic-status, enabled or disabled).
\<close>

definition AppLabel :: string where "AppLabel = ''app''"
definition ReleaseLabel :: string where "ReleaseLabel = ''release''"
definition LBLabel :: string where "LBLabel = ''lb''"
definition LBForProduction :: string where "LBForProduction = ''production''"
definition PodTrafficStatusLabel :: string where "PodTrafficStatusLabel = ''traffic-status''"
definition Enabled :: string where "Enabled = ''enabled''"
definition Disabled :: string where "Disabled = ''disabled''"

text \<open>
  The errors \<^verbatim>\<open>TargetObjectsForRelease\<close> returns: the error of a failed \<^verbatim>\<open>List\<close> call as it
  is, or \<^verbatim>\<open>NewUnexpectedObjectCountFromSelectorError(selector, kind, expected, got)\<close>.
\<close>

datatype ResolveError =
    ListFailed string
  | UnexpectedObjectCountFromSelector LabelSelector string nat nat

text \<open>
  The three checks in the order of the source. The error for the traffic and the capacity
  targets is built with \<^verbatim>\<open>len(itList.Items)\<close>, as the source has it.
\<close>

definition TargetObjectsForRelease ::
  "string \<Rightarrow> string \<Rightarrow> ('it, 'tt, 'ct) ShipperClient \<Rightarrow> ResolveError + ('it \<times> 'tt \<times> 'ct)" where
  "TargetObjectsForRelease relName relNamespace shipperClient =
     (let selector = [(ReleaseLabel, relName)];
          expectedNumberOfTargetObjects = 1 in
      case InstallationTargets shipperClient relNamespace selector of
        Inl err \<Rightarrow> Inl (ListFailed err)
      | Inr itItems \<Rightarrow>
          if length itItems \<noteq> expectedNumberOfTargetObjects
          then Inl (UnexpectedObjectCountFromSelector selector ''InstallationTarget''
                      expectedNumberOfTargetObjects (length itItems))
          else
            (case TrafficTargets shipperClient relNamespace selector of
               Inl err \<Rightarrow> Inl (ListFailed err)
             | Inr ttItems \<Rightarrow>
                 if length ttItems \<noteq> expectedNumberOfTargetObjects
                 then Inl (UnexpectedObjectCountFromSelector selector ''TrafficTarget''
                             expectedNumberOfTargetObjects (length itItems))
                 else
                   (case CapacityTargets shipperClient relNamespace selector of
                      Inl err \<Rightarrow> Inl (ListFailed err)
                    | Inr ctItems \<Rightarrow>
                        if length ctItems \<noteq> expectedNumberOfTargetObjects
                        then Inl (UnexpectedObjectCountFromSelector selector ''CapacityTarget''
                                    expectedNumberOfTargetObjects (length itItems))
                        else Inr (itItems ! 0, ttItems ! 0, ctItems ! 0))))"

section \<open>The pod label shifter (package traffic)\<close>

subsection \<open>Traffic targets and the weight table\<close>

type_synonym uint32 = "32 word"

record ClusterTrafficTarget =
  ClusterName :: string
  Weight :: uint32

text \<open>
  Of a \<^verbatim>\<open>TrafficTarget\<close> the code reads the namespace, the name, the labels (a Go map,
  nil or not: a lookup in a nil map finds nothing) and \<^verbatim>\<open>Spec.Clusters\<close>.
\<close>

record TrafficTarget =
  TTNamespace :: string
  TTName :: string
  TTLabels :: "string \<rightharpoonup> string"
  TTClusters :: "ClusterTrafficTarget list"

type_synonym releaseWeights = "string \<rightharpoonup> uint32"
type_synonym clusterReleaseWeights = "string \<rightharpoonup> releaseWeights"

text \<open>The two \<^verbatim>\<open>fmt.Errorf\<close> errors, with the values their messages print.\<close>

datatype BuildError =
    NeedsReleaseLabel string string
  | BothOperateOnRelease string string string string

text \<open>
  The inner loop over \<^verbatim>\<open>tt.Spec.Clusters\<close>. The inner map is shared with the outer one in
  Go, so the update of \<^verbatim>\<open>weights[release]\<close> is an update of the table; a missing key
  reads as 0, and \<^verbatim>\<open>+=\<close> on \<^verbatim>\<open>uint32\<close> wraps around.
\<close>

fun addClusterWeights ::
  "string \<Rightarrow> ClusterTrafficTarget list \<Rightarrow> clusterReleaseWeights \<Rightarrow> clusterReleaseWeights" where
  "addClusterWeights release [] clusterReleases = clusterReleases"
| "addClusterWeights release (cluster # rest) clusterReleases =
     (let weights = (case clusterReleases (ClusterName cluster) of
                       None \<Rightarrow> Map.empty
                     | Some ws \<Rightarrow> ws);
          old = (case weights release of None \<Rightarrow> 0 | Some v \<Rightarrow> v)
      in addClusterWeights release rest
           (clusterReleases(ClusterName cluster \<mapsto> weights(release \<mapsto> old + Weight cluster))))"

fun buildLoop ::
  "TrafficTarget list \<Rightarrow> clusterReleaseWeights \<Rightarrow> (string \<rightharpoonup> TrafficTarget) \<Rightarrow>
   BuildError + clusterReleaseWeights" where
  "buildLoop [] clusterReleases releaseTT = Inr clusterReleases"
| "buildLoop (tt # rest) clusterReleases releaseTT =
     (case TTLabels tt ReleaseLabel of
        None \<Rightarrow> Inl (NeedsReleaseLabel (TTNamespace tt) (TTName tt))
      | Some release \<Rightarrow>
          (case releaseTT release of
             Some existingTT \<Rightarrow>
               Inl (BothOperateOnRelease (TTName existingTT) (TTName tt) (TTNamespace tt) release)
           | None \<Rightarrow>
               buildLoop rest (addClusterWeights release (TTClusters tt) clusterReleases)
                 (releaseTT(release \<mapsto> tt))))"

definition buildClusterReleaseWeights ::
  "TrafficTarget list \<Rightarrow> BuildError + clusterReleaseWeights" where
  "buildClusterReleaseWeights trafficTargets = buildLoop trafficTargets Map.empty Map.empty"

text \<open>
  The table as the specification words it: the entries of a traffic target for a cluster,
  and for a cluster the releases that have an entry there, each with the sum of its
  entries' weights (in \<^verbatim>\<open>uint32\<close>).
\<close>

definition clusterEntries :: "TrafficTarget \<Rightarrow> string \<Rightarrow> ClusterTrafficTarget list" where
  "clusterEntries tt cluster = filter (\<lambda>c. ClusterName c = cluster) (TTClusters tt)"

definition summedWeights :: "TrafficTarget list \<Rightarrow> clusterReleaseWeights" where
  "summedWeights tts cluster =
     (if list_all (\<lambda>tt. clusterEntries tt cluster = []) tts then None
      else Some (\<lambda>release.
        case find (\<lambda>tt. TTLabels tt ReleaseLabel = Some release) tts of
          None \<Rightarrow> None
        | Some tt \<Rightarrow>
            if clusterEntries tt cluster = [] then None
            else Some (sum_list (map Weight (clusterEntries tt cluster)))))"

definition lacksReleaseLabel :: "TrafficTarget \<Rightarrow> bool" where
  "lacksReleaseLabel tt = (TTLabels tt ReleaseLabel = None)"

text \<open>The release labels that are present, in the order of the list, hold one twice.\<close>

definition sameReleaseTwice :: "TrafficTarget list \<Rightarrow> bool" where
  "sameReleaseTwice tts =
     (\<not> distinct (List.map_filter (\<lambda>tt. TTLabels tt ReleaseLabel) tts))"

subsection \<open>Pods, services and patches\<close>

text \<open>
  Of a pod the code reads the name and the labels; of a service the name and
  \<^verbatim>\<open>Spec.Selector\<close>, a Go map that may be nil. The selector's entries are listed in the
  order \<^verbatim>\<open>range\<close> visits them.
\<close>

record Pod =
  PodName :: string
  PodLabels :: "string \<rightharpoonup> string"

record Service =
  SvcName :: string
  SvcSelector :: "LabelSelector option"

fun getsTraffic :: "Pod \<Rightarrow> LabelSelector \<Rightarrow> bool" where
  "getsTraffic pod [] = True"
| "getsTraffic pod ((key, trafficValue) # rest) =
     (case PodLabels pod key of
        None \<Rightarrow> False
      | Some podValue \<Rightarrow> if podValue \<noteq> trafficValue then False else getsTraffic pod rest)"

record PatchOperation =
  Op :: string
  Path :: string
  Value :: string

text \<open>
  \<^verbatim>\<open>patchPodTrafficStatusLabel\<close> builds the list \<^verbatim>\<open>patchList\<close> and returns
  \<^verbatim>\<open>json.Marshal(patchList)\<close>. The model returns the list that is marshalled.
\<close>

definition patchPodTrafficStatusLabel :: "Pod \<Rightarrow> string \<Rightarrow> PatchOperation list" where
  "patchPodTrafficStatusLabel pod v =
     (let op = (case PodLabels pod PodTrafficStatusLabel of
                  Some _ \<Rightarrow> ''replace''
                | None \<Rightarrow> ''add'')
      in [\<lparr>Op = op, Path = ''/metadata/labels/'' @ PodTrafficStatusLabel, Value = v\<rparr>])"

subsection \<open>Floating-point numbers\<close>

text \<open>
  A \<^verbatim>\<open>float64\<close> is an IEEE 754 binary64 number: zero, or a number $m \cdot 2^{e - 52}$
  with an integer $m$, $2^{52} \le |m| < 2^{53}$. Each arithmetic operation of Go on
  \<^verbatim>\<open>float64\<close> returns the exact result rounded to the nearest such number, and where two
  are equally near, to the one with the even $m$. A value is a real number here, and
  \<open>roundFloat64\<close> is that rounding: \<open>exponent x\<close> is the $e$ with
  $2^e \le |x| < 2^{e+1}$, the representable numbers about $x$ are the multiples of
  $2^{e-52}$, and \<open>roundToEven\<close> takes the quotient to the nearest integer, a half to the
  even one.

  Left out is what the numbers of this code do not reach. The exponent is not bounded: the
  operands are weights below $2^{32}$, numbers of pods, the constants 100 and 0.5 and
  results of these operations, all far inside the range of \<^verbatim>\<open>float64\<close>. There is no
  infinity and no NaN: the code divides by \<^verbatim>\<open>float64(totalWeight)\<close> where
  \<^verbatim>\<open>totalWeight\<close> is not zero, by \<^verbatim>\<open>float64(totalPods)\<close>, where the model says what a
  zero gives, and by 100. No value is negative, so the sign of a zero plays no part. Each
  operation is rounded by itself, as on amd64; Go allows an implementation to fuse
  \<^verbatim>\<open>x*y + z\<close> into one operation with one rounding.
\<close>

type_synonym float64 = real

text \<open>\<^verbatim>\<open>math.Ceil\<close>, whose result is a whole number, read as an integer.\<close>

definition Ceil :: "float64 \<Rightarrow> int" where
  "Ceil x = - \<lfloor>- x\<rfloor>"

definition exponent :: "real \<Rightarrow> int" where
  "exponent x =
     (if \<bar>x\<bar> \<ge> 1 then bitlen \<lfloor>\<bar>x\<bar>\<rfloor> - 1 else - bitlen (Ceil (1 / \<bar>x\<bar>) - 1))"

definition roundToEven :: "real \<Rightarrow> int" where
  "roundToEven q =
     (let n = \<lfloor>q\<rfloor> in
      if q - of_int n < 1 / 2 then n
      else if q - of_int n > 1 / 2 then n + 1
      else if even n then n else n + 1)"

definition roundFloat64 :: "real \<Rightarrow> float64" where
  "roundFloat64 x =
     (if x = 0 then 0
      else let ulp = 2 powi (exponent x - 52) in of_int (roundToEven (x / ulp)) * ulp)"

definition float64_add :: "float64 \<Rightarrow> float64 \<Rightarrow> float64" where
  "float64_add x y = roundFloat64 (x + y)"

definition float64_sub :: "float64 \<Rightarrow> float64 \<Rightarrow> float64" where
  "float64_sub x y = roundFloat64 (x - y)"

definition float64_mul :: "float64 \<Rightarrow> float64 \<Rightarrow> float64" where
  "float64_mul x y = roundFloat64 (x * y)"

definition float64_div :: "float64 \<Rightarrow> float64 \<Rightarrow> float64" where
  "float64_div x y = roundFloat64 (x / y)"

subsection \<open>The target number of pods\<close>

text \<open>
  Go's \<^verbatim>\<open>int\<close> and \<^verbatim>\<open>uint\<close> are unbounded numbers here: every count is the length of
  a slice, or is clamped by one, and such numbers are far below $2^{53}$, so that the
  conversions \<^verbatim>\<open>float64(n)\<close> of a count or of a weight are exact (lemma
  \<open>roundFloat64_of_nat\<close>). Weights are \<^verbatim>\<open>uint32\<close> and wrap around. The conversion
  \<^verbatim>\<open>int(x)\<close> of a float truncates towards zero. The constants \<^verbatim>\<open>0.5\<close> and \<^verbatim>\<open>100\<close>
  are \<^verbatim>\<open>float64\<close> numbers.
\<close>

definition int_of_float64 :: "float64 \<Rightarrow> int" where
  "int_of_float64 x = (if x < 0 then Ceil x else \<lfloor>x\<rfloor>)"

definition round' :: "float64 \<Rightarrow> int" where
  "round' num =
     (if num < 0 then int_of_float64 (float64_sub num (1 / 2))
      else int_of_float64 (float64_add num (1 / 2)))"

definition targetPercent :: "uint32 \<Rightarrow> uint32 \<Rightarrow> float64" where
  "targetPercent releaseWeight totalWeight =
     (if totalWeight = 0 then 0
      else float64_mul (float64_div (real (unat releaseWeight)) (real (unat totalWeight))) 100)"

text \<open>
  Modelled from the spec: \<^verbatim>\<open>replicas.CalculateDesiredReplicaCount\<close>, which is not part of
  the sources. The specification gives the target count as the share of the fleet
  rounded up (``ceil(totalPods * weight / totalWeight)''), and the caller's comment says
  ``round up to the nearest pod''; the helper takes the share as a percentage, a
  \<^verbatim>\<open>float64\<close>, and the number of pods as a \<^verbatim>\<open>uint\<close>, so it computes in \<^verbatim>\<open>float64\<close>:
  \<^verbatim>\<open>uint(math.Ceil(percentage / 100 * float64(totalReplicaCount)))\<close>.
\<close>

definition CalculateDesiredReplicaCount :: "nat \<Rightarrow> float64 \<Rightarrow> nat" where
  "CalculateDesiredReplicaCount totalReplicaCount percentage =
     nat (Ceil (float64_mul (float64_div percentage 100) (real totalReplicaCount)))"

definition calculateReleasePodTarget :: "nat \<Rightarrow> uint32 \<Rightarrow> nat \<Rightarrow> uint32 \<Rightarrow> nat" where
  "calculateReleasePodTarget releasePods releaseWeight totalPods totalWeight =
     (let targetPods =
            CalculateDesiredReplicaCount totalPods (targetPercent releaseWeight totalWeight)
      in nat (int_of_float64 (min (real releasePods) (real targetPods))))"

text \<open>
  The achieved weight \<^verbatim>\<open>uint32(round(proportion * float64(totalWeight)))\<close>. With no pod
  in the fleet the division is a division by zero, which in \<^verbatim>\<open>float64\<close> gives an
  infinity or a NaN; converting either to an integer gives a value the language leaves to
  the implementation. The conversion to \<^verbatim>\<open>uint32\<close> keeps the low 32 bits.
\<close>

datatype AchievedWeight = Achieved uint32 | ImplementationDependent

definition achievedWeight :: "nat \<Rightarrow> nat \<Rightarrow> uint32 \<Rightarrow> AchievedWeight" where
  "achievedWeight finalTrafficPods totalPods totalWeight =
     (if totalPods = 0 then ImplementationDependent
      else
        let proportion = float64_div (real finalTrafficPods) (real totalPods)
        in Achieved (word_of_int (round' (float64_mul proportion (real (unat totalWeight))))))"

subsection \<open>Synchronising one cluster\<close>

text \<open>
  The target cluster as \<^verbatim>\<open>SyncCluster\<close> sees it: the services client's \<^verbatim>\<open>List\<close>, the
  informer's pod lister (a cache, which the patches of the same run do not change), and
  the pods client's \<^verbatim>\<open>Patch\<close>, which fails or not; its answer is a function of the pod's
  name and the patch. Each takes the namespace first.
\<close>

record Cluster =
  ListServices :: "string \<Rightarrow> LabelSelector \<Rightarrow> string + Service list"
  ListPods :: "string \<Rightarrow> LabelSelector \<Rightarrow> string + Pod list"
  PatchPod :: "string \<Rightarrow> string \<Rightarrow> PatchOperation list \<Rightarrow> string option"

record podLabelShifter =
  appName :: string
  namespace :: string
  serviceSelector :: LabelSelector
  clusterReleaseWeights :: clusterReleaseWeights

definition newPodLabelShifter ::
  "string \<Rightarrow> string \<Rightarrow> TrafficTarget list \<Rightarrow> BuildError + podLabelShifter" where
  "newPodLabelShifter app ns trafficTargets =
     (case buildClusterReleaseWeights trafficTargets of
        Inl err \<Rightarrow> Inl err
      | Inr weights \<Rightarrow>
          Inr \<lparr>appName = app, namespace = ns,
               serviceSelector = [(AppLabel, app), (LBLabel, LBForProduction)],
               clusterReleaseWeights = weights\<rparr>)"

datatype TrafficError =
    NoWeightsForCluster string
  | TargetClusterFetchServiceFailed string LabelSelector string string
  | TargetClusterWrongServiceCount string LabelSelector string nat
  | TargetClusterServiceMissesSelector string string string
  | TargetClusterPodListing string string string
  | TargetClusterReleasePodListing string string string string
  | TargetClusterTrafficModifyingLabel string string string string
  | TargetClusterMath string nat nat

text \<open>
  What a run has done so far: the map of achieved weights, the per-pod errors, and the
  calls of \<^verbatim>\<open>Patch\<close> it has made (pod name and patch), in order.
\<close>

type_synonym PatchCall = "string \<times> PatchOperation list"

record SyncState =
  achievedWeights :: "string \<rightharpoonup> AchievedWeight"
  errors :: "TrafficError list"
  patches :: "PatchCall list"

text \<open>
  The two inner loops, over the first \<^verbatim>\<open>excess\<close> traffic pods and the first
  \<^verbatim>\<open>missing\<close> idle pods. Each returns its counter with the state.
\<close>

definition wantsDisabling :: "Pod \<Rightarrow> bool" where
  "wantsDisabling pod =
     (case PodLabels pod PodTrafficStatusLabel of None \<Rightarrow> True | Some v \<Rightarrow> v = Enabled)"

definition wantsEnabling :: "Pod \<Rightarrow> bool" where
  "wantsEnabling pod =
     (case PodLabels pod PodTrafficStatusLabel of None \<Rightarrow> True | Some v \<Rightarrow> v = Disabled)"

fun removeFromLB ::
  "Cluster \<Rightarrow> string \<Rightarrow> string \<Rightarrow> Pod list \<Rightarrow> nat \<times> SyncState \<Rightarrow> nat \<times> SyncState" where
  "removeFromLB K cluster ns [] (removedFromLB, st) = (removedFromLB, st)"
| "removeFromLB K cluster ns (pod # rest) (removedFromLB, st) =
     (if wantsDisabling pod then
        let patch = patchPodTrafficStatusLabel pod Disabled;
            st' = st\<lparr>patches := patches st @ [(PodName pod, patch)]\<rparr>
        in (case PatchPod K ns (PodName pod) patch of
              Some err \<Rightarrow>
                removeFromLB K cluster ns rest
                  (removedFromLB,
                   st'\<lparr>errors := errors st' @
                      [TargetClusterTrafficModifyingLabel cluster ns (PodName pod) err]\<rparr>)
            | None \<Rightarrow> removeFromLB K cluster ns rest (removedFromLB + 1, st'))
      else removeFromLB K cluster ns rest (removedFromLB + 1, st))"

fun addToLB ::
  "Cluster \<Rightarrow> string \<Rightarrow> string \<Rightarrow> Pod list \<Rightarrow> nat \<times> SyncState \<Rightarrow> nat \<times> SyncState" where
  "addToLB K cluster ns [] (addedToLB, st) = (addedToLB, st)"
| "addToLB K cluster ns (pod # rest) (addedToLB, st) =
     (if wantsEnabling pod then
        let patch = patchPodTrafficStatusLabel pod Enabled;
            st' = st\<lparr>patches := patches st @ [(PodName pod, patch)]\<rparr>
        in (case PatchPod K ns (PodName pod) patch of
              Some err \<Rightarrow>
                addToLB K cluster ns rest
                  (addedToLB,
                   st'\<lparr>errors := errors st' @
                      [TargetClusterTrafficModifyingLabel cluster ns (PodName pod) err]\<rparr>)
            | None \<Rightarrow> addToLB K cluster ns rest (addedToLB + 1, st'))
      else addToLB K cluster ns rest (addedToLB + 1, st))"

text \<open>
  The body of the loop over the releases. A failure of the pod lister is fatal: the run
  returns that error alone.
\<close>

definition syncRelease ::
  "Cluster \<Rightarrow> podLabelShifter \<Rightarrow> string \<Rightarrow> LabelSelector \<Rightarrow> nat \<Rightarrow> uint32 \<Rightarrow>
   string \<times> uint32 \<Rightarrow> SyncState \<Rightarrow> TrafficError + SyncState" where
  "syncRelease K p cluster trafficSelector totalPods totalWeight rw st =
     (let release = fst rw; weight = snd rw in
      case ListPods K (namespace p) [(ReleaseLabel, release)] of
        Inl err \<Rightarrow> Inl (TargetClusterReleasePodListing release cluster (namespace p) err)
      | Inr releasePods \<Rightarrow>
          let targetPods =
                calculateReleasePodTarget (length releasePods) weight totalPods totalWeight;
              trafficPods = filter (\<lambda>pod. getsTraffic pod trafficSelector) releasePods;
              idlePods = filter (\<lambda>pod. \<not> getsTraffic pod trafficSelector) releasePods
          in
            if length trafficPods = targetPods
            then Inr (st\<lparr>achievedWeights := (achievedWeights st)(release \<mapsto> Achieved weight)\<rparr>)
            else if length trafficPods > targetPods then
              let excess = length trafficPods - targetPods;
                  (removedFromLB, st') =
                    removeFromLB K cluster (namespace p) (take excess trafficPods) (0, st);
                  finalTrafficPods = length trafficPods - removedFromLB
              in Inr (st'\<lparr>achievedWeights := (achievedWeights st')
                        (release \<mapsto> achievedWeight finalTrafficPods totalPods totalWeight)\<rparr>)
            else
              let missing = targetPods - length trafficPods in
              if missing > length idlePods
              then Inr (st\<lparr>errors := errors st @
                          [TargetClusterMath release (length idlePods) missing]\<rparr>)
              else
                let (addedToLB, st') =
                      addToLB K cluster (namespace p) (take missing idlePods) (0, st);
                    finalTrafficPods = length trafficPods + addedToLB
                in Inr (st'\<lparr>achievedWeights := (achievedWeights st')
                          (release \<mapsto> achievedWeight finalTrafficPods totalPods totalWeight)\<rparr>))"

text \<open>
  The result of a run: the calls of \<^verbatim>\<open>Patch\<close> it made, and what it returned, a fatal
  error or the achieved weights with the per-pod errors.
\<close>

type_synonym SyncResult =
  "PatchCall list \<times> (TrafficError + (string \<rightharpoonup> AchievedWeight) \<times> TrafficError list)"

fun syncReleases ::
  "Cluster \<Rightarrow> podLabelShifter \<Rightarrow> string \<Rightarrow> LabelSelector \<Rightarrow> nat \<Rightarrow> uint32 \<Rightarrow>
   (string \<times> uint32) list \<Rightarrow> SyncState \<Rightarrow> SyncResult" where
  "syncReleases K p cluster trafficSelector totalPods totalWeight [] st =
     (patches st, Inr (achievedWeights st, errors st))"
| "syncReleases K p cluster trafficSelector totalPods totalWeight (rw # rest) st =
     (case syncRelease K p cluster trafficSelector totalPods totalWeight rw st of
        Inl err \<Rightarrow> (patches st, Inl err)
      | Inr st' \<Rightarrow> syncReleases K p cluster trafficSelector totalPods totalWeight rest st')"

text \<open>
  \<^verbatim>\<open>range\<close> over a Go map visits each key once, in an order the language does not
  fix. The order is a parameter of the model: \<open>rangeOrder\<close> lists the keys of the
  cluster's release weights as the run visits them, and \<open>rangeEntries\<close> pairs each with
  its weight.
\<close>

definition rangeEntries :: "releaseWeights \<Rightarrow> string list \<Rightarrow> (string \<times> uint32) list" where
  "rangeEntries releaseWeights rangeOrder =
     List.map_filter (\<lambda>release. map_option (Pair release) (releaseWeights release)) rangeOrder"

definition isRangeOrder :: "releaseWeights \<Rightarrow> string list \<Rightarrow> bool" where
  "isRangeOrder releaseWeights rangeOrder =
     (distinct rangeOrder \<and> set rangeOrder = dom releaseWeights)"

definition sumWeights :: "(string \<times> uint32) list \<Rightarrow> uint32" where
  "sumWeights entries = foldl (\<lambda>totalWeight rw. totalWeight + snd rw) 0 entries"

definition SyncCluster ::
  "podLabelShifter \<Rightarrow> string list \<Rightarrow> string \<Rightarrow> Cluster \<Rightarrow> SyncResult" where
  "SyncCluster p rangeOrder cluster K =
     (case clusterReleaseWeights p cluster of
        None \<Rightarrow> ([], Inl (NoWeightsForCluster cluster))
      | Some releaseWeights \<Rightarrow>
          (case ListServices K (namespace p) (serviceSelector p) of
             Inl err \<Rightarrow>
               ([], Inl (TargetClusterFetchServiceFailed cluster (serviceSelector p)
                           (namespace p) err))
           | Inr items \<Rightarrow>
               if length items \<noteq> 1
               then ([], Inl (TargetClusterWrongServiceCount cluster (serviceSelector p)
                                (namespace p) (length items)))
               else
                 let prodSvc = items ! 0 in
                 (case SvcSelector prodSvc of
                    None \<Rightarrow>
                      ([], Inl (TargetClusterServiceMissesSelector cluster (namespace p)
                                  (SvcName prodSvc)))
                  | Some trafficSelector \<Rightarrow>
                      (case ListPods K (namespace p) [(AppLabel, appName p)] of
                         Inl err \<Rightarrow> ([], Inl (TargetClusterPodListing cluster (namespace p) err))
                       | Inr pods \<Rightarrow>
                           let totalPods = length pods;
                               entries = rangeEntries releaseWeights rangeOrder;
                               totalWeight = sumWeights entries
                           in syncReleases K p cluster trafficSelector totalPods totalWeight
                                entries
                                \<lparr>achievedWeights = Map.empty, errors = [], patches = []\<rparr>))))"

section \<open>Concrete inputs\<close>

text \<open>Two conditions and a status holding both, used to run the functions above.\<close>

definition exCondA :: ReleaseCondition where
  "exCondA = \<lparr>Type = ''Complete'', Status = ''False'', LastTransitionTime = 1,
              Reason = ''Waiting'', Message = ''step 0''\<rparr>"

definition exCondB :: ReleaseCondition where
  "exCondB = \<lparr>Type = ''Scheduled'', Status = ''True'', LastTransitionTime = 2,
              Reason = ''AllClusters'', Message = ''scheduled''\<rparr>"

definition exStatus :: ReleaseStatus where
  "exStatus = \<lparr>Conditions = [exCondA, exCondB]\<rparr>"

text \<open>A client whose three \<^verbatim>\<open>List\<close> calls return the given results; the objects are numbers.\<close>

definition exClient ::
  "string + nat list \<Rightarrow> string + nat list \<Rightarrow> string + nat list \<Rightarrow> (nat, nat, nat) ShipperClient" where
  "exClient its tts cts =
     \<lparr>InstallationTargets = (\<lambda>ns selector. its),
      TrafficTargets = (\<lambda>ns selector. tts),
      CapacityTargets = (\<lambda>ns selector. cts)\<rparr>"

text \<open>Traffic targets: two releases, a second target for the first release, one without labels.\<close>

definition exTT1 :: TrafficTarget where
  "exTT1 = \<lparr>TTNamespace = ''ns'', TTName = ''tt-reviewsapi-1'',
            TTLabels = [ReleaseLabel \<mapsto> ''reviewsapi-1''],
            TTClusters = [\<lparr>ClusterName = ''cluster-1'', Weight = 90\<rparr>,
                          \<lparr>ClusterName = ''cluster-2'', Weight = 7\<rparr>,
                          \<lparr>ClusterName = ''cluster-1'', Weight = 5\<rparr>]\<rparr>"

definition exTT2 :: TrafficTarget where
  "exTT2 = \<lparr>TTNamespace = ''ns'', TTName = ''tt-reviewsapi-2'',
            TTLabels = [ReleaseLabel \<mapsto> ''reviewsapi-2''],
            TTClusters = [\<lparr>ClusterName = ''cluster-1'', Weight = 5\<rparr>]\<rparr>"

definition exTT1' :: TrafficTarget where
  "exTT1' = \<lparr>TTNamespace = ''ns'', TTName = ''tt-reviewsapi-1b'',
            TTLabels = [ReleaseLabel \<mapsto> ''reviewsapi-1''],
            TTClusters = []\<rparr>"

definition exTTNoLabel :: TrafficTarget where
  "exTTNoLabel = \<lparr>TTNamespace = ''ns'', TTName = ''tt-unlabelled'',
            TTLabels = Map.empty, TTClusters = []\<rparr>"

text \<open>
  Pods of the application reviewsapi, the production service whose selector asks for the
  application and for the traffic-status label \<^verbatim>\<open>Enabled\<close>, a cluster over a list of pods
  (the lister returns the pods whose labels match the selector; \<^verbatim>\<open>Patch\<close> fails for the
  pods named), and a shifter for one cluster with given release weights.
\<close>

definition exPod :: "string \<Rightarrow> string \<Rightarrow> string \<Rightarrow> Pod" where
  "exPod name release status =
     \<lparr>PodName = name,
      PodLabels = [AppLabel \<mapsto> ''reviewsapi'', ReleaseLabel \<mapsto> release,
                   PodTrafficStatusLabel \<mapsto> status]\<rparr>"

definition exPodBare :: Pod where
  "exPodBare = \<lparr>PodName = ''c1'',
                PodLabels = [AppLabel \<mapsto> ''reviewsapi'', ReleaseLabel \<mapsto> ''r1'']\<rparr>"

definition exService :: Service where
  "exService = \<lparr>SvcName = ''reviewsapi-prod'',
                SvcSelector = Some [(AppLabel, ''reviewsapi''), (PodTrafficStatusLabel, Enabled)]\<rparr>"

definition exSelector :: LabelSelector where
  "exSelector = [(AppLabel, ''reviewsapi''), (PodTrafficStatusLabel, Enabled)]"

definition exCluster :: "Pod list \<Rightarrow> string list \<Rightarrow> Cluster" where
  "exCluster pods failing =
     \<lparr>ListServices = (\<lambda>ns selector. Inr [exService]),
      ListPods = (\<lambda>ns selector. Inr (filter (\<lambda>pod. getsTraffic pod selector) pods)),
      PatchPod = (\<lambda>ns name patch. if name \<in> set failing then Some ''conflict'' else None)\<rparr>"

definition exShifter :: "releaseWeights \<Rightarrow> podLabelShifter" where
  "exShifter rw =
     \<lparr>appName = ''reviewsapi'', namespace = ''ns'',
      serviceSelector = [(AppLabel, ''reviewsapi''), (LBLabel, LBForProduction)],
      clusterReleaseWeights = [''cluster-1'' \<mapsto> rw]\<rparr>"

text \<open>
  Fleets: one where release r1 has a pod too many in the load balancer and r2 one too
  few, and the same fleet after the first pod of r1 was taken out and the pod of r2 put
  in; one where r1 and r2 own a pod each and only the pod
  of r1 is in the load balancer; one with a pod that carries the release label of r1 and
  the label of another application; seven pods of r1, of which six are in the load
  balancer, and the fleet of these and three pods of r2; and two fleets of six pods of
  r1, with five and with all six in the load balancer. And the weight tables: halves, all
  zero, all of the traffic for r1, 45 for r1 alone, and 5 to 1.
\<close>

definition exPodsShift :: "Pod list" where
  "exPodsShift = [exPod ''a1'' ''r1'' Enabled, exPod ''a2'' ''r1'' Enabled,
                  exPod ''a3'' ''r1'' Enabled, exPod ''b1'' ''r2'' Disabled]"

definition exPodsShifted :: "Pod list" where
  "exPodsShifted = [exPod ''a1'' ''r1'' Disabled, exPod ''a2'' ''r1'' Enabled,
                    exPod ''a3'' ''r1'' Enabled, exPod ''b1'' ''r2'' Enabled]"

definition exPodsLone :: "Pod list" where
  "exPodsLone = [exPod ''a1'' ''r1'' Enabled, exPod ''b1'' ''r2'' Disabled]"

definition exHalves :: releaseWeights where
  "exHalves = [''r1'' \<mapsto> 50, ''r2'' \<mapsto> 50]"

definition exZeros :: releaseWeights where
  "exZeros = [''r1'' \<mapsto> 0, ''r2'' \<mapsto> 0]"

definition exWhole :: releaseWeights where
  "exWhole = [''r1'' \<mapsto> 100, ''r2'' \<mapsto> 0]"

definition exPodStray :: Pod where
  "exPodStray =
     \<lparr>PodName = ''s1'',
      PodLabels = [AppLabel \<mapsto> ''ratingsapi'', ReleaseLabel \<mapsto> ''r1'',
                   PodTrafficStatusLabel \<mapsto> Enabled]\<rparr>"

definition exPodsStray :: "Pod list" where
  "exPodsStray = [exPod ''a1'' ''r1'' Enabled, exPodStray, exPod ''b1'' ''r2'' Disabled]"

definition exPodsSeven :: "Pod list" where
  "exPodsSeven = [exPod ''a1'' ''r1'' Enabled, exPod ''a2'' ''r1'' Enabled,
                  exPod ''a3'' ''r1'' Enabled, exPod ''a4'' ''r1'' Enabled,
                  exPod ''a5'' ''r1'' Enabled, exPod ''a6'' ''r1'' Enabled,
                  exPod ''a7'' ''r1'' Disabled]"

definition exPodsTen :: "Pod list" where
  "exPodsTen = exPodsSeven @ [exPod ''b1'' ''r2'' Disabled, exPod ''b2'' ''r2'' Disabled,
                               exPod ''b3'' ''r2'' Disabled]"

definition exPodsSix :: "Pod list" where
  "exPodsSix = [exPod ''a1'' ''r1'' Enabled, exPod ''a2'' ''r1'' Enabled,
                exPod ''a3'' ''r1'' Enabled, exPod ''a4'' ''r1'' Enabled,
                exPod ''a5'' ''r1'' Enabled, exPod ''a6'' ''r1'' Disabled]"

definition exPodsSixSettled :: "Pod list" where
  "exPodsSixSettled = [exPod ''a1'' ''r1'' Enabled, exPod ''a2'' ''r1'' Enabled,
                exPod ''a3'' ''r1'' Enabled, exPod ''a4'' ''r1'' Enabled,
                exPod ''a5'' ''r1'' Enabled, exPod ''a6'' ''r1'' Enabled]"

definition exFortyFive :: releaseWeights where
  "exFortyFive = [''r1'' \<mapsto> 45, ''r2'' \<mapsto> 0]"

definition exFiveToOne :: releaseWeights where
  "exFiveToOne = [''r1'' \<mapsto> 5, ''r2'' \<mapsto> 1]"

section \<open>Auxiliary definitions\<close>

text \<open>
  Reading the two-level table at a cluster and a release, the weight \<^verbatim>\<open>+=\<close> starts
  from, the release label of a traffic target, and the inputs without a missing or a
  repeated release label.
\<close>

definition lookup2 :: "clusterReleaseWeights \<Rightarrow> string \<Rightarrow> string \<Rightarrow> uint32 option" where
  "lookup2 t c r = (case t c of None \<Rightarrow> None | Some m \<Rightarrow> m r)"

definition oldWeight :: "clusterReleaseWeights \<Rightarrow> string \<Rightarrow> string \<Rightarrow> uint32" where
  "oldWeight t c r = (case lookup2 t c r of None \<Rightarrow> 0 | Some v \<Rightarrow> v)"

definition releaseOf :: "TrafficTarget \<Rightarrow> string option" where
  "releaseOf tt = TTLabels tt ReleaseLabel"

definition releasesGood :: "TrafficTarget list \<Rightarrow> bool" where
  "releasesGood tts = (\<not> list_ex lacksReleaseLabel tts \<and> \<not> sameReleaseTwice tts)"

subsection \<open>One release in a run of the shifter\<close>

text \<open>
  The pieces of the loop body of \<^verbatim>\<open>SyncCluster\<close>, named so that results can speak of
  them: the two lists the release's pods are split into, the pods the first and the
  second inner loop visit, whether the \<^verbatim>\<open>Patch\<close> call for a pod fails, and the call
  itself.
\<close>

definition trafficPodsOf :: "LabelSelector \<Rightarrow> Pod list \<Rightarrow> Pod list" where
  "trafficPodsOf sel pods = filter (\<lambda>pod. getsTraffic pod sel) pods"

definition idlePodsOf :: "LabelSelector \<Rightarrow> Pod list \<Rightarrow> Pod list" where
  "idlePodsOf sel pods = filter (\<lambda>pod. \<not> getsTraffic pod sel) pods"

definition excessPods :: "LabelSelector \<Rightarrow> nat \<Rightarrow> Pod list \<Rightarrow> Pod list" where
  "excessPods sel targetPods pods =
     take (length (trafficPodsOf sel pods) - targetPods) (trafficPodsOf sel pods)"

definition missingPods :: "LabelSelector \<Rightarrow> nat \<Rightarrow> Pod list \<Rightarrow> Pod list" where
  "missingPods sel targetPods pods =
     take (targetPods - length (trafficPodsOf sel pods)) (idlePodsOf sel pods)"

definition disableFails :: "Cluster \<Rightarrow> string \<Rightarrow> Pod \<Rightarrow> bool" where
  "disableFails K ns pod =
     (wantsDisabling pod \<and>
      PatchPod K ns (PodName pod) (patchPodTrafficStatusLabel pod Disabled) \<noteq> None)"

definition enableFails :: "Cluster \<Rightarrow> string \<Rightarrow> Pod \<Rightarrow> bool" where
  "enableFails K ns pod =
     (wantsEnabling pod \<and>
      PatchPod K ns (PodName pod) (patchPodTrafficStatusLabel pod Enabled) \<noteq> None)"

definition disableCall :: "Pod \<Rightarrow> PatchCall" where
  "disableCall pod = (PodName pod, patchPodTrafficStatusLabel pod Disabled)"

definition enableCall :: "Pod \<Rightarrow> PatchCall" where
  "enableCall pod = (PodName pod, patchPodTrafficStatusLabel pod Enabled)"

text \<open>
  What the loop body adds for one release whose pods were listed: the calls of
  \<^verbatim>\<open>Patch\<close>, the per-pod errors, and the number \<^verbatim>\<open>finalTrafficPods\<close> that enters the
  achieved weight (the traffic pods less \<^verbatim>\<open>removedFromLB\<close>, or plus \<^verbatim>\<open>addedToLB\<close>).
\<close>

definition releasePatches :: "LabelSelector \<Rightarrow> nat \<Rightarrow> Pod list \<Rightarrow> PatchCall list" where
  "releasePatches sel targetPods pods =
     (if length (trafficPodsOf sel pods) > targetPods
      then map disableCall (filter wantsDisabling (excessPods sel targetPods pods))
      else map enableCall (filter wantsEnabling (missingPods sel targetPods pods)))"

definition releaseErrors ::
  "Cluster \<Rightarrow> string \<Rightarrow> string \<Rightarrow> LabelSelector \<Rightarrow> nat \<Rightarrow> Pod list \<Rightarrow> TrafficError list" where
  "releaseErrors K cluster ns sel targetPods pods =
     (if length (trafficPodsOf sel pods) > targetPods
      then map (\<lambda>pod. TargetClusterTrafficModifyingLabel cluster ns (PodName pod)
                 (the (PatchPod K ns (PodName pod) (patchPodTrafficStatusLabel pod Disabled))))
             (filter (disableFails K ns) (excessPods sel targetPods pods))
      else map (\<lambda>pod. TargetClusterTrafficModifyingLabel cluster ns (PodName pod)
                 (the (PatchPod K ns (PodName pod) (patchPodTrafficStatusLabel pod Enabled))))
             (filter (enableFails K ns) (missingPods sel targetPods pods)))"

definition finalTrafficPods :: "Cluster \<Rightarrow> string \<Rightarrow> LabelSelector \<Rightarrow> nat \<Rightarrow> Pod list \<Rightarrow> nat" where
  "finalTrafficPods K ns sel targetPods pods =
     (if length (trafficPodsOf sel pods) > targetPods
      then length (trafficPodsOf sel pods)
           - length (filter (\<lambda>pod. \<not> disableFails K ns pod) (excessPods sel targetPods pods))
      else length (trafficPodsOf sel pods)
           + length (filter (\<lambda>pod. \<not> enableFails K ns pod) (missingPods sel targetPods pods)))"

definition releaseAchieved ::
  "Cluster \<Rightarrow> string \<Rightarrow> LabelSelector \<Rightarrow> nat \<Rightarrow> uint32 \<Rightarrow> uint32 \<Rightarrow> nat \<Rightarrow> Pod list \<Rightarrow>
   AchievedWeight" where
  "releaseAchieved K ns sel totalPods totalWeight weight targetPods pods =
     (if length (trafficPodsOf sel pods) = targetPods then Achieved weight
      else achievedWeight (finalTrafficPods K ns sel targetPods pods) totalPods totalWeight)"

text \<open>
  The same for an entry of the weight table, with the pods the lister returns for the
  release.
\<close>

definition podsOfRelease :: "Cluster \<Rightarrow> podLabelShifter \<Rightarrow> string \<Rightarrow> string + Pod list" where
  "podsOfRelease K p release = ListPods K (namespace p) [(ReleaseLabel, release)]"

definition listingOk :: "Cluster \<Rightarrow> podLabelShifter \<Rightarrow> string \<times> uint32 \<Rightarrow> bool" where
  "listingOk K p rw = (case podsOfRelease K p (fst rw) of Inl _ \<Rightarrow> False | Inr _ \<Rightarrow> True)"

definition releasePatchesAt ::
  "Cluster \<Rightarrow> podLabelShifter \<Rightarrow> LabelSelector \<Rightarrow> nat \<Rightarrow> uint32 \<Rightarrow> string \<times> uint32 \<Rightarrow>
   PatchCall list" where
  "releasePatchesAt K p sel totalPods totalWeight rw =
     (case podsOfRelease K p (fst rw) of
        Inl _ \<Rightarrow> []
      | Inr pods \<Rightarrow>
          releasePatches sel
            (calculateReleasePodTarget (length pods) (snd rw) totalPods totalWeight) pods)"

definition releaseErrorsAt ::
  "Cluster \<Rightarrow> podLabelShifter \<Rightarrow> string \<Rightarrow> LabelSelector \<Rightarrow> nat \<Rightarrow> uint32 \<Rightarrow>
   string \<times> uint32 \<Rightarrow> TrafficError list" where
  "releaseErrorsAt K p cluster sel totalPods totalWeight rw =
     (case podsOfRelease K p (fst rw) of
        Inl _ \<Rightarrow> []
      | Inr pods \<Rightarrow>
          releaseErrors K cluster (namespace p) sel
            (calculateReleasePodTarget (length pods) (snd rw) totalPods totalWeight) pods)"

definition releaseAchievedAt ::
  "Cluster \<Rightarrow> podLabelShifter \<Rightarrow> LabelSelector \<Rightarrow> nat \<Rightarrow> uint32 \<Rightarrow> string \<times> uint32 \<Rightarrow>
   AchievedWeight option" where
  "releaseAchievedAt K p sel totalPods totalWeight rw =
     (case podsOfRelease K p (fst rw) of
        Inl _ \<Rightarrow> None
      | Inr pods \<Rightarrow>
          Some (releaseAchieved K (namespace p) sel totalPods totalWeight (snd rw)
            (calculateReleasePodTarget (length pods) (snd rw) totalPods totalWeight) pods))"

text \<open>
  A cluster is at the target split when, for every release of the table whose pods the
  lister returns, the number of its pods that get traffic is its target number: the
  condition \<^verbatim>\<open>len(trafficPods) == targetPods\<close> of the source.
\<close>

definition atTargetSplit ::
  "Cluster \<Rightarrow> podLabelShifter \<Rightarrow> LabelSelector \<Rightarrow> nat \<Rightarrow> releaseWeights \<Rightarrow> string list \<Rightarrow> bool" where
  "atTargetSplit K p sel totalPods rw order =
     list_all
       (\<lambda>e. case ListPods K (namespace p) [(ReleaseLabel, fst e)] of
               Inl _ \<Rightarrow> True
             | Inr pods \<Rightarrow>
                 length (filter (\<lambda>pod. getsTraffic pod sel) pods) =
                   calculateReleasePodTarget (length pods) (snd e) totalPods
                     (sumWeights (rangeEntries rw order)))
       (rangeEntries rw order)"

text \<open>
  The patches that take a release out of the load balancer altogether: one to
  \<^verbatim>\<open>Disabled\<close> for each of its pods that gets traffic and whose traffic-status label is
  absent or \<^verbatim>\<open>Enabled\<close>.
\<close>

definition drainPatches :: "Cluster \<Rightarrow> podLabelShifter \<Rightarrow> LabelSelector \<Rightarrow> string \<Rightarrow> PatchCall list" where
  "drainPatches K p sel release =
     (case ListPods K (namespace p) [(ReleaseLabel, release)] of
        Inl _ \<Rightarrow> []
      | Inr pods \<Rightarrow>
          map (\<lambda>pod. (PodName pod, patchPodTrafficStatusLabel pod Disabled))
            (filter (\<lambda>pod. PodLabels pod PodTrafficStatusLabel \<in> {None, Some Enabled})
               (filter (\<lambda>pod. getsTraffic pod sel) pods)))"

text \<open>
  What a run returned, read at given releases: the achieved weights there and the per-pod
  errors, or nothing after a fatal error.
\<close>

definition outcomeOf ::
  "SyncResult \<Rightarrow> string list \<Rightarrow> (AchievedWeight option list \<times> TrafficError list) option" where
  "outcomeOf res releases =
     (case snd res of Inl _ \<Rightarrow> None | Inr (aw, errs) \<Rightarrow> Some (map aw releases, errs))"

section \<open>Results on the floating-point arithmetic\<close>

text \<open>
  \<open>exponent\<close> is the binary exponent, \<open>roundFloat64\<close> returns a number with a significand
  of at most 53 bits that is within half a unit in the last place of its argument, a
  number with such a significand is returned as it is (so the integers below $2^{53}$,
  0.5 and 100 are \<^verbatim>\<open>float64\<close> numbers), and a tie goes to the even significand.
\<close>

lemma Ceil_ceiling: "Ceil x = \<lceil>x\<rceil>"
  by (simp add: Ceil_def ceiling_def)

lemma bitlen_real_bounds:
  assumes "0 < n"
  shows "0 < bitlen n" and "(2::real) ^ nat (bitlen n - 1) \<le> of_int n"
    and "of_int n + 1 \<le> (2::real) ^ nat (bitlen n)"
proof -
  show "0 < bitlen n"
    using assms bitlen_nonneg [of n] bitlen_eq_zero_iff [of n] by linarith
  have "2 ^ nat (bitlen n - 1) \<le> n" and "n + 1 \<le> 2 ^ nat (bitlen n)"
    using bitlen_bounds [OF assms] by simp_all
  then have "(of_int (2 ^ nat (bitlen n - 1)) :: real) \<le> of_int n"
    and "(of_int (n + 1) :: real) \<le> of_int (2 ^ nat (bitlen n))"
    by (simp_all only: of_int_le_iff)
  then show "(2::real) ^ nat (bitlen n - 1) \<le> of_int n"
    and "of_int n + 1 \<le> (2::real) ^ nat (bitlen n)"
    by simp_all
qed

lemma exponent_bounds:
  assumes "x \<noteq> 0"
  shows "2 powi exponent x \<le> \<bar>x\<bar> \<and> \<bar>x\<bar> < 2 powi (exponent x + 1)"
proof (cases "\<bar>x\<bar> \<ge> 1")
  case True
  define n where "n = \<lfloor>\<bar>x\<bar>\<rfloor>"
  define b where "b = bitlen n"
  have n: "0 < n" using True by (simp add: n_def)
  have e: "exponent x = b - 1"
    using True by (simp add: exponent_def n_def b_def)
  note bb = bitlen_real_bounds [OF n, folded b_def]
  have "2 powi exponent x = (2::real) ^ nat (b - 1)"
    using bb(1) by (simp add: e power_int_def)
  moreover have "2 powi (exponent x + 1) = (2::real) ^ nat b"
    using bb(1) by (simp add: e power_int_def)
  moreover have "of_int n \<le> \<bar>x\<bar>" and "\<bar>x\<bar> < of_int n + 1"
    unfolding n_def using floor_correct [of "\<bar>x\<bar>"] by simp_all
  ultimately show ?thesis
    using bb(2,3) by linarith
next
  case False
  define y where "y = 1 / \<bar>x\<bar>"
  define m where "m = \<lceil>y\<rceil> - 1"
  define b where "b = bitlen m"
  have x: "0 < \<bar>x\<bar>" "\<bar>x\<bar> < 1"
    using assms False by simp_all
  then have y: "1 < y"
    by (simp add: y_def)
  have my: "of_int m < y" "y \<le> of_int m + 1"
    unfolding m_def using ceiling_correct [of y] by simp_all
  have m: "0 < m"
    using y my(2) by linarith
  have e: "exponent x = - b"
    using False by (simp add: exponent_def Ceil_ceiling y_def m_def b_def)
  note bb = bitlen_real_bounds [OF m, folded b_def]
  have ylo: "(2::real) ^ nat (b - 1) < y" and yhi: "y \<le> (2::real) ^ nat b"
    using bb(2,3) my by linarith+
  have p1: "2 powi exponent x = 1 / (2::real) ^ nat b"
    using bb(1) by (simp add: e power_int_def field_simps)
  have "nat (b - 1) = nat b - 1"
    by simp
  then have p2: "2 powi (exponent x + 1) = 1 / (2::real) ^ nat (b - 1)"
    using bb(1) by (cases "b = 1") (simp_all add: e power_int_def field_simps)
  have "1 / (2::real) ^ nat b \<le> \<bar>x\<bar>"
    using yhi x by (simp add: y_def field_simps)
  moreover have "\<bar>x\<bar> < 1 / (2::real) ^ nat (b - 1)"
    using ylo x by (simp add: y_def field_simps)
  ultimately show ?thesis
    by (simp only: p1 p2)
qed


lemma roundToEven_near: "\<bar>of_int (roundToEven q) - q\<bar> \<le> 1 / 2"
proof -
  have "of_int \<lfloor>q\<rfloor> \<le> q" and "q < of_int \<lfloor>q\<rfloor> + 1"
    using floor_correct [of q] by simp_all
  then show ?thesis
    by (simp add: roundToEven_def Let_def abs_le_iff)
qed

lemma ulp_half: "(2::real) powi (e - 52) / 2 = 2 powi (e - 53)"
proof -
  have "(2::real) powi (e - 52) = 2 powi (e - 53 + 1)"
    by simp
  also have "\<dots> = 2 powi (e - 53) * 2"
    by (subst power_int_add) simp_all
  finally show ?thesis
    by simp
qed

lemma roundFloat64_near: "\<bar>roundFloat64 x - x\<bar> \<le> 2 powi (exponent x - 53)"
proof (cases "x = 0")
  case True
  then show ?thesis
    by (simp add: roundFloat64_def)
next
  case False
  define ulp :: real where "ulp = 2 powi (exponent x - 52)"
  have ulp: "0 < ulp"
    by (simp add: ulp_def)
  have "roundFloat64 x - x = (of_int (roundToEven (x / ulp)) - x / ulp) * ulp"
    using False ulp by (simp add: roundFloat64_def Let_def ulp_def [symmetric] field_simps)
  then have "\<bar>roundFloat64 x - x\<bar> = \<bar>of_int (roundToEven (x / ulp)) - x / ulp\<bar> * ulp"
    using ulp by (simp add: abs_mult)
  also have "\<dots> \<le> 1 / 2 * ulp"
    using roundToEven_near [of "x / ulp"] ulp by (intro mult_right_mono) simp_all
  also have "\<dots> = 2 powi (exponent x - 53)"
    using ulp_half [of "exponent x"] by (simp add: ulp_def)
  finally show ?thesis .
qed

lemma roundFloat64_relative: "\<bar>roundFloat64 x - x\<bar> \<le> \<bar>x\<bar> / 2 ^ 53"
proof (cases "x = 0")
  case True
  then show ?thesis
    by (simp add: roundFloat64_def)
next
  case False
  have "(2::real) powi (exponent x - 53) = 2 powi exponent x * 2 powi (- 53)"
    by (subst power_int_add [symmetric]) simp_all
  also have "\<dots> = 2 powi exponent x / 2 ^ 53"
    by (simp add: power_int_minus field_simps)
  also have "\<dots> \<le> \<bar>x\<bar> / 2 ^ 53"
    using exponent_bounds [OF False] by (intro divide_right_mono) simp_all
  finally show ?thesis
    using roundFloat64_near [of x] by linarith
qed

lemma roundFloat64_zero: "roundFloat64 0 = 0"
  by (simp add: roundFloat64_def)

lemma roundToEven_tie: "q - of_int \<lfloor>q\<rfloor> = 1 / 2 \<Longrightarrow> even (roundToEven q)"
  by (simp add: roundToEven_def Let_def)

lemma roundToEven_of_int: "roundToEven (of_int M) = M"
  by (simp add: roundToEven_def)

lemma roundFloat64_exact:
  assumes "\<bar>m\<bar> < 2 ^ 53"
  shows "roundFloat64 (of_int m * 2 powi k) = of_int m * 2 powi k"
proof (cases "m = 0")
  case True
  then show ?thesis
    by (simp add: roundFloat64_def)
next
  case False
  define x :: real where "x = of_int m * 2 powi k"
  define e where "e = exponent x"
  have x0: "x \<noteq> 0"
    using False by (simp add: x_def)
  have "real_of_int \<bar>m\<bar> < real_of_int (2 ^ 53)"
    using assms by (simp only: of_int_less_iff)
  then have m: "\<bar>real_of_int m\<bar> < 2 ^ 53"
    by simp
  have "e < 53 + k"
  proof (rule ccontr)
    assume "\<not> e < 53 + k"
    then have "(2::real) powi (53 + k) \<le> 2 powi e"
      by (intro power_int_increasing) simp_all
    moreover have "(2::real) powi (53 + k) = 2 ^ 53 * 2 powi k"
      by (subst power_int_add) simp_all
    moreover have "\<bar>x\<bar> < 2 ^ 53 * 2 powi k"
      using m by (simp add: x_def abs_mult)
    ultimately show False
      using exponent_bounds [OF x0] by (simp add: e_def)
  qed
  then obtain j where j: "k - (e - 52) = int j"
    using nonneg_int_cases [of "k - (e - 52)"] by auto
  have "x / 2 powi (e - 52) = of_int m * 2 powi (k - (e - 52))"
    by (simp add: x_def power_int_diff)
  also have "\<dots> = of_int (m * 2 ^ j)"
    by (simp add: j)
  finally have q: "x / 2 powi (e - 52) = of_int (m * 2 ^ j)" .
  have "roundFloat64 x = of_int (m * 2 ^ j) * 2 powi (e - 52)"
    using x0 by (simp add: roundFloat64_def Let_def e_def [symmetric] q roundToEven_of_int
        del: of_int_mult of_int_power)
  also have "\<dots> = x"
    using q by (simp add: field_simps)
  finally show ?thesis
    by (simp add: x_def)
qed

lemma roundFloat64_of_nat:
  assumes "n < 2 ^ 53"
  shows "roundFloat64 (real n) = real n"
proof -
  have "int n < int (2 ^ 53)"
    using assms by (simp only: of_nat_less_iff)
  then have "\<bar>int n\<bar> < 2 ^ 53"
    by simp
  then show ?thesis
    using roundFloat64_exact [of "int n" 0] by simp
qed

lemma roundFloat64_representable:
  "\<exists>m. roundFloat64 x = of_int m * 2 powi (exponent x - 52) \<and> \<bar>m\<bar> \<le> 2 ^ 53"
proof (cases "x = 0")
  case True
  then show ?thesis
    by (intro exI [of _ 0]) (simp add: roundFloat64_def)
next
  case False
  define ulp :: real where "ulp = 2 powi (exponent x - 52)"
  define q where "q = x / ulp"
  define m where "m = roundToEven q"
  have ulp: "0 < ulp"
    by (simp add: ulp_def)
  have "2 powi (exponent x + 1) = ulp * 2 ^ 53"
  proof -
    have "exponent x + 1 = (exponent x - 52) + 53"
      by simp
    then have "(2::real) powi (exponent x + 1) = 2 powi ((exponent x - 52) + 53)"
      by (simp only:)
    also have "\<dots> = 2 powi (exponent x - 52) * 2 powi 53"
      by (subst power_int_add) simp_all
    finally show ?thesis
      by (simp add: ulp_def)
  qed
  then have "\<bar>x\<bar> < ulp * 2 ^ 53"
    using exponent_bounds [OF False] by simp
  then have "\<bar>q\<bar> < 2 ^ 53"
    using ulp by (simp add: q_def abs_divide field_simps)
  moreover have "\<bar>of_int m - q\<bar> \<le> 1 / 2"
    unfolding m_def by (rule roundToEven_near)
  ultimately have "\<bar>real_of_int m\<bar> < 2 ^ 53 + 1"
    by linarith
  then have "real_of_int \<bar>m\<bar> < real_of_int (2 ^ 53 + 1)"
    by simp
  then have "\<bar>m\<bar> < 2 ^ 53 + 1"
    by (simp only: of_int_less_iff)
  then have "\<bar>m\<bar> \<le> 2 ^ 53"
    by simp
  moreover have "roundFloat64 x = of_int m * ulp"
    using False by (simp add: roundFloat64_def Let_def ulp_def m_def q_def)
  ultimately show ?thesis
    unfolding ulp_def by blast
qed

text \<open>
  The error of the three operations behind an achieved weight, and what it leaves of the
  rounding: with at most $2^{17}$ pods in the fleet the truncated sum is the exact
  quotient rounded half away from zero, unless the quotient lies exactly between two
  integers; then it is one of the two.
\<close>

lemma roundToEven_nonneg: "0 \<le> q \<Longrightarrow> 0 \<le> roundToEven q"
  by (simp add: roundToEven_def Let_def)

lemma roundFloat64_nonneg: "0 \<le> x \<Longrightarrow> 0 \<le> roundFloat64 x"
  by (simp add: roundFloat64_def Let_def roundToEven_nonneg)

lemma roundFloat64_relative_nonneg:
  assumes "0 \<le> x"
  shows "\<bar>roundFloat64 x - x\<bar> \<le> x / 2 ^ 53"
  using roundFloat64_relative [of x] assms by simp

lemma achievedWeight_close:
  fixes f t :: nat and W :: real
  assumes t: "0 < t" and W: "0 \<le> W"
  defines "v \<equiv> real f * W / real t"
  shows "\<bar>float64_add (float64_mul (float64_div (real f) (real t)) W) (1 / 2) - (v + 1 / 2)\<bar>
           \<le> (7 * v + 1 / 2) / 2 ^ 53"
proof -
  define u :: real where "u = 1 / 2 ^ 53"
  define a where "a = real f / real t"
  define p where "p = roundFloat64 a"
  define x where "x = roundFloat64 (p * W)"
  define s where "s = roundFloat64 (x + 1 / 2)"
  have u: "0 < u" "u \<le> 1"
    by (simp_all add: u_def)
  have a: "0 \<le> a"
    by (simp add: a_def)
  have v: "v = a * W" "0 \<le> v"
    using W by (simp_all add: v_def a_def)
  have p: "0 \<le> p" and pa: "\<bar>p - a\<bar> \<le> a * u"
    using roundFloat64_nonneg [OF a] roundFloat64_relative_nonneg [OF a]
    by (simp_all add: p_def u_def)
  have "\<bar>p * W - v\<bar> = \<bar>p - a\<bar> * W"
    using W by (simp add: v(1) abs_mult left_diff_distrib [symmetric])
  also have "\<dots> \<le> a * u * W"
    using pa W by (rule mult_right_mono)
  also have "\<dots> = v * u"
    by (simp add: v(1))
  finally have pw: "\<bar>p * W - v\<bar> \<le> v * u" .
  have "v * u \<le> v * 1"
    using u v(2) by (intro mult_left_mono) simp_all
  then have pw2: "p * W \<le> 2 * v"
    using pw by linarith
  have pw0: "0 \<le> p * W"
    using p W by simp
  have x0: "0 \<le> x" and "\<bar>x - p * W\<bar> \<le> p * W * u"
    using roundFloat64_nonneg [OF pw0] roundFloat64_relative_nonneg [OF pw0]
    by (simp_all add: x_def u_def)
  moreover have "p * W * u \<le> 2 * v * u"
    using pw2 u by (intro mult_right_mono) simp_all
  ultimately have xv: "\<bar>x - v\<bar> \<le> 3 * v * u"
    using pw by linarith
  have "3 * v * u \<le> 3 * v * 1"
    using u v(2) by (intro mult_left_mono) simp_all
  then have x4: "x + 1 / 2 \<le> 4 * v + 1 / 2"
    using xv by linarith
  have xh: "0 \<le> x + 1 / 2"
    using x0 by simp
  have "\<bar>s - (x + 1 / 2)\<bar> \<le> (x + 1 / 2) * u"
    using roundFloat64_relative_nonneg [OF xh] by (simp add: s_def u_def)
  moreover have "(x + 1 / 2) * u \<le> (4 * v + 1 / 2) * u"
    using x4 u by (intro mult_right_mono) simp_all
  ultimately have "\<bar>s - (v + 1 / 2)\<bar> \<le> (4 * v + 1 / 2) * u + 3 * v * u"
    using xv by linarith
  also have "\<dots> = (7 * v + 1 / 2) / 2 ^ 53"
    by (simp add: u_def field_simps)
  finally show ?thesis
    by (simp add: s_def x_def p_def a_def float64_add_def float64_mul_def float64_div_def)
qed

lemma achievedWeight_exact:
  fixes f t :: nat and w :: uint32
  assumes t: "0 < t" and ft: "f \<le> t" and small: "t < 2 ^ 17"
  defines "r \<equiv> \<lfloor>float64_add (float64_mul (float64_div (real f) (real t)) (real (unat w)))
                   (1 / 2)\<rfloor>"
  defines "z \<equiv> real f * real (unat w) / real t + 1 / 2"
  shows "\<lfloor>z\<rfloor> = int ((2 * f * unat w + t) div (2 * t))"
    and "\<not> 2 * t dvd 2 * f * unat w + t \<Longrightarrow> r = \<lfloor>z\<rfloor>"
    and "2 * t dvd 2 * f * unat w + t \<Longrightarrow> r = \<lfloor>z\<rfloor> \<or> r = \<lfloor>z\<rfloor> - 1"
proof -
  define W where "W = unat w"
  define N where "N = 2 * f * W + t"
  define D where "D = 2 * t"
  define k where "k = N div D"
  define m where "m = N mod D"
  define s where "s = float64_add (float64_mul (float64_div (real f) (real t)) (real W)) (1 / 2)"
  define v where "v = real f * real W / real t"
  have D: "0 < D" "real D \<le> 2 ^ 18"
  proof -
    show "0 < D" using t by (simp add: D_def)
    have "D \<le> 2 ^ 18" using small by (simp add: D_def)
    then have "real D \<le> real (2 ^ 18)" by (simp only: of_nat_le_iff)
    then show "real D \<le> 2 ^ 18" by simp
  qed
  have W: "real W < 2 ^ 32"
  proof -
    have "W < 2 ^ 32" using unsigned_less [of w, where ?'a = nat] by (simp add: W_def)
    then have "real W < real (2 ^ 32)" by (simp only: of_nat_less_iff)
    then show ?thesis by simp
  qed
  have z: "z = real N / real D"
    using t by (simp add: z_def N_def D_def W_def field_simps)
  have N: "real N = real k * real D + real m"
    unfolding k_def m_def by (metis of_nat_add of_nat_mult div_mult_mod_eq)
  have zk: "z = real k + real m / real D"
    using D(1) by (simp add: z N field_simps)
  have mD: "m < D"
    using D(1) by (simp add: m_def)
  have v0: "0 \<le> v"
    by (simp add: v_def)
  have "real f / real t \<le> 1"
    using ft t by simp
  then have "real f / real t * real W \<le> 1 * real W"
    by (intro mult_right_mono) simp_all
  then have vW: "v < 2 ^ 32"
    using W by (simp add: v_def)
  have "\<bar>s - (v + 1 / 2)\<bar> \<le> (7 * v + 1 / 2) / 2 ^ 53"
    unfolding s_def v_def by (rule achievedWeight_close [OF t]) simp
  also have "\<dots> < (7 * 2 ^ 32 + 1 / 2) / 2 ^ 53"
    using vW by (intro divide_strict_right_mono) simp_all
  also have "\<dots> < 1 / 2 ^ 18"
    by simp
  also have "\<dots> \<le> 1 / real D"
    using D by (simp add: field_simps)
  finally have close: "\<bar>s - z\<bar> < 1 / real D"
    by (simp add: z_def v_def W_def)
  have fl: "\<lfloor>z\<rfloor> = int k"
  proof -
    have "0 \<le> real m / real D" "real m / real D < 1"
      using mD D(1) by simp_all
    then show ?thesis
      unfolding zk by (intro floor_unique) simp_all
  qed
  show "\<lfloor>z\<rfloor> = int ((2 * f * unat w + t) div (2 * t))"
    by (simp add: fl k_def N_def D_def W_def)
  have r: "r = \<lfloor>s\<rfloor>"
    by (simp add: r_def s_def W_def)
  show "r = \<lfloor>z\<rfloor>" if "\<not> 2 * t dvd 2 * f * unat w + t"
  proof -
    have "m \<noteq> 0"
      using that by (simp add: m_def N_def D_def W_def dvd_eq_mod_eq_0)
    then have "1 \<le> m" and "m + 1 \<le> D"
      using mD by simp_all
    then have "real 1 \<le> real m" and "real (m + 1) \<le> real D"
      by (simp_all only: of_nat_le_iff)
    then have "1 \<le> real m" and "real m + 1 \<le> real D"
      by simp_all
    then have "1 / real D \<le> real m / real D" and "real m / real D + 1 / real D \<le> 1"
      using D(1) by (simp_all add: field_simps)
    then have "real k < s" and "s < real k + 1"
      using close zk by (simp_all add: abs_less_iff)
    then have "\<lfloor>s\<rfloor> = int k"
      by (intro floor_unique) simp_all
    then show ?thesis
      by (simp add: r fl)
  qed
  show "r = \<lfloor>z\<rfloor> \<or> r = \<lfloor>z\<rfloor> - 1" if "2 * t dvd 2 * f * unat w + t"
  proof -
    have "m = 0"
      using that by (simp add: m_def N_def D_def W_def dvd_eq_mod_eq_0)
    then have "z = real k"
      by (simp add: zk)
    moreover have "1 / real D \<le> 1"
      using D(1) by simp
    ultimately have "real k - 1 < s" and "s < real k + 1"
      using close by (simp_all add: abs_less_iff)
    then have "of_int (int k - 1) < s" and "s < of_int (int k) + 1"
      by simp_all
    then have "int k - 1 \<le> \<lfloor>s\<rfloor>" "\<lfloor>s\<rfloor> \<le> int k"
      by (simp_all add: le_floor_iff floor_le_iff less_imp_le)
    then show ?thesis
      unfolding r fl by linarith
  qed
qed

text \<open>
  Values where the rounding shows: 5/6*100 is 83.33333333333334 in \<^verbatim>\<open>float64\<close>, which
  makes the target of five sixths of six pods 6; 7/100*100 is 7.000000000000001, which
  makes the target of seven hundredths of a hundred pods 8; 7/10*45 is
  31.499999999999996, which is reported as 31; and the sum of 0.49999999999999994, the
  largest \<^verbatim>\<open>float64\<close> below one half, and 0.5 is rounded to 1.
\<close>

lemma float64_examples:
  "targetPercent 5 6 = 2932031007402667 / 35184372088832"
  "calculateReleasePodTarget 6 5 6 6 = 6"
  "calculateReleasePodTarget 100 7 100 100 = 8"
  "float64_mul (float64_div 7 10) 45 = 8866461766385663 / 281474976710656"
  "achievedWeight 7 10 45 = Achieved 31"
  "round' (1 / 2 - 1 / 2 ^ 54) = 1"
  by code_simp+

section \<open>Results on release conditions\<close>

lemmas ex_condition_defs = exCondA_def exCondB_def exStatus_def

lemmas condition_defs =
  SetReleaseCondition_def GetReleaseCondition_def IsEmpty_def NewReleaseConditionDiff_def
  sortConditions_def Let_def RemoveReleaseCondition_def conditionsOrdered_def
  runConditionOps_def

lemma sortConditions_mset: "mset (sortConditions cs) = mset cs"
  by (simp add: sortConditions_def)

lemma sortConditions_sorted: "sorted (map Type (sortConditions cs))"
  by (simp add: sortConditions_def)

lemma GetReleaseCondition'_filter:
  "GetReleaseCondition' cs t =
     (case filter (\<lambda>c. Type c = t) cs of [] \<Rightarrow> None | c # _ \<Rightarrow> Some c)"
  by (induction cs) simp_all

lemma GetReleaseCondition'_Type: "GetReleaseCondition' cs t = Some c \<Longrightarrow> Type c = t"
  by (induction cs) (auto split: if_splits)

lemma filterOutCondition_filter: "filterOutCondition cs t = filter (\<lambda>c. Type c \<noteq> t) cs"
  by (induction cs) simp_all

lemma filter_singleton_rearranged:
  assumes "mset ys = mset xs" and "filter P xs = [c]"
  shows "filter P ys = [c]"
proof -
  have "mset (filter P ys) = mset (filter P xs)"
    using assms(1) by (metis mset_filter)
  then have "mset (filter P ys) = {#c#}"
    using assms(2) by simp
  then show ?thesis
    by (cases "filter P ys") auto
qed

text \<open>After a write, the one condition of the written type is the condition written.\<close>

lemma GetReleaseCondition'_written:
  assumes "Type c = t"
  shows "GetReleaseCondition' (sortConditions (filterOutCondition cs t @ [c])) t = Some c"
proof -
  have "filter (\<lambda>x. Type x = t) (filterOutCondition cs t @ [c]) = [c]"
    using assms by (simp add: filterOutCondition_filter)
  then have "filter (\<lambda>x. Type x = t) (sortConditions (filterOutCondition cs t @ [c])) = [c]"
    by (rule filter_singleton_rearranged [OF sortConditions_mset])
  then show ?thesis
    by (simp add: GetReleaseCondition'_filter)
qed

lemma SetReleaseCondition_same:
  assumes "GetReleaseCondition status (Type condition) = Some cur"
    and "Status cur = Status condition"
    and "Reason cur = Reason condition"
    and "Message cur = Message condition"
  shows "SetReleaseCondition status condition = (status, None)"
proof -
  have "Type cur = Type condition"
    using assms(1) unfolding GetReleaseCondition_def by (rule GetReleaseCondition'_Type)
  then show ?thesis
    using assms by (simp add: SetReleaseCondition_def IsEmpty_def NewReleaseConditionDiff_def)
qed

lemma SetReleaseCondition_written:
  assumes "SetReleaseCondition status condition = (status', Some d)"
  shows "GetReleaseCondition status' (Type condition) =
    Some (case GetReleaseCondition status (Type condition) of
            None \<Rightarrow> condition
          | Some cur \<Rightarrow>
              if Status cur = Status condition
              then condition\<lparr>LastTransitionTime := LastTransitionTime cur\<rparr>
              else condition)"
proof -
  let ?c = "case GetReleaseCondition status (Type condition) of
              None \<Rightarrow> condition
            | Some cur \<Rightarrow>
                if Status cur = Status condition
                then condition\<lparr>LastTransitionTime := LastTransitionTime cur\<rparr>
                else condition"
  have t: "Type ?c = Type condition"
    by (simp split: option.splits)
  have "status' = status\<lparr>Conditions :=
      sortConditions (filterOutCondition (Conditions status) (Type condition) @ [?c])\<rparr>"
    using assms t by (simp add: SetReleaseCondition_def Let_def split: if_splits)
  then show ?thesis
    using GetReleaseCondition'_written [OF t] by (simp add: GetReleaseCondition_def)
qed

lemma conditionsOrdered_iff:
  "conditionsOrdered cs \<longleftrightarrow> sorted (map Type cs) \<and> distinct (map Type cs)"
  by (simp add: conditionsOrdered_def strict_sorted_iff)

lemma conditionsOrdered_filterOut:
  "conditionsOrdered cs \<Longrightarrow> conditionsOrdered (filterOutCondition cs t)"
  by (simp add: conditionsOrdered_def filterOutCondition_filter sorted_wrt_map sorted_wrt_filter)

text \<open>
  A call that writes leaves the list sorted; it leaves no type twice if none was there
  twice. A call that does not write leaves the status as it was.
\<close>

lemma SetReleaseCondition_ordered:
  assumes "distinct (map Type (Conditions status))"
  shows "conditionsOrdered (Conditions (fst (SetReleaseCondition status condition)))
      \<or> fst (SetReleaseCondition status condition) = status"
proof (cases "IsEmpty (NewReleaseConditionDiff
    (GetReleaseCondition status (Type condition)) (Some condition))")
  case True
  then show ?thesis
    by (simp add: SetReleaseCondition_def)
next
  case False
  let ?c = "case GetReleaseCondition status (Type condition) of
              None \<Rightarrow> condition
            | Some cur \<Rightarrow>
                if Status cur = Status condition
                then condition\<lparr>LastTransitionTime := LastTransitionTime cur\<rparr>
                else condition"
  let ?xs = "filterOutCondition (Conditions status) (Type condition) @ [?c]"
  have t: "Type ?c = Type condition"
    by (simp split: option.splits)
  have eq: "Conditions (fst (SetReleaseCondition status condition)) = sortConditions ?xs"
    using False t by (simp add: SetReleaseCondition_def Let_def)
  have d: "distinct (map Type ?xs)"
    using assms by (auto simp: t filterOutCondition_filter distinct_map_filter)
  have m: "mset (map Type (sortConditions ?xs)) = mset (map Type ?xs)"
    by (simp add: sortConditions_mset)
  have "distinct (map Type (sortConditions ?xs))"
    using mset_eq_imp_distinct_iff [OF m] d by blast
  then show ?thesis
    using sortConditions_sorted [of ?xs] eq by (simp add: conditionsOrdered_iff)
qed

text \<open>
  Claim C6. Setting a condition that agrees with the stored condition of its type in
  type, status, reason and message leaves the status as it is and returns no diff; in
  particular writing back the condition just read does (set(status, get(status, T)) =
  status), so the stored transition time does not move. When the new condition has the
  stored status but another reason or message, the condition stored afterwards is the
  new one with the stored transition time; when the status differs, it is the new one
  with its own transition time.
\<close>

theorem SetReleaseCondition_stable:
  assumes "GetReleaseCondition status (Type condition) = Some cur"
  shows "(Status cur = Status condition \<and> Reason cur = Reason condition \<and>
          Message cur = Message condition \<longrightarrow>
            SetReleaseCondition status condition = (status, None))
       \<and> SetReleaseCondition status cur = (status, None)
       \<and> (Status cur = Status condition \<and>
          (Reason cur \<noteq> Reason condition \<or> Message cur \<noteq> Message condition) \<longrightarrow>
            GetReleaseCondition (fst (SetReleaseCondition status condition)) (Type condition) =
              Some (condition\<lparr>LastTransitionTime := LastTransitionTime cur\<rparr>))
       \<and> (Status cur \<noteq> Status condition \<longrightarrow>
            GetReleaseCondition (fst (SetReleaseCondition status condition)) (Type condition) =
              Some condition)"
proof -
  have ty: "Type cur = Type condition"
    using assms unfolding GetReleaseCondition_def by (rule GetReleaseCondition'_Type)
  have same: "SetReleaseCondition status cur = (status, None)"
    using assms ty by (intro SetReleaseCondition_same [where cur = cur]) simp_all
  have written:
    "GetReleaseCondition (fst (SetReleaseCondition status condition)) (Type condition) =
      Some (if Status cur = Status condition
            then condition\<lparr>LastTransitionTime := LastTransitionTime cur\<rparr> else condition)"
    if "\<not> (Status cur = Status condition \<and> Reason cur = Reason condition \<and>
          Message cur = Message condition)"
  proof -
    have "\<not> IsEmpty (NewReleaseConditionDiff (Some cur) (Some condition))"
      using that by (auto simp: IsEmpty_def NewReleaseConditionDiff_def)
    then obtain status' d where "SetReleaseCondition status condition = (status', Some d)"
      using assms by (simp add: SetReleaseCondition_def Let_def)
    then show ?thesis
      using SetReleaseCondition_written [of status condition status' d] assms by simp
  qed
  show ?thesis
    using SetReleaseCondition_same [OF assms] same written by auto
qed

theorem SetReleaseCondition_stable_witness:
  "GetReleaseCondition exStatus ''Complete'' = Some exCondA
   \<and> SetReleaseCondition exStatus (exCondA\<lparr>LastTransitionTime := 9\<rparr>) = (exStatus, None)
   \<and> GetReleaseCondition
        (fst (SetReleaseCondition exStatus
           (exCondA\<lparr>LastTransitionTime := 9, Reason := ''Held''\<rparr>)))
        ''Complete''
      = Some (exCondA\<lparr>LastTransitionTime := 1, Reason := ''Held''\<rparr>)
   \<and> GetReleaseCondition
        (fst (SetReleaseCondition exStatus
           (exCondA\<lparr>LastTransitionTime := 9, Status := ''True''\<rparr>)))
        ''Complete''
      = Some (exCondA\<lparr>LastTransitionTime := 9, Status := ''True''\<rparr>)"
proof -
  have g: "GetReleaseCondition exStatus ''Complete'' = Some exCondA"
    by (simp add: ex_condition_defs GetReleaseCondition_def)
  have t: "Type exCondA = ''Complete''"
    by (simp add: exCondA_def)
  show ?thesis
    using g
      SetReleaseCondition_stable [of exStatus "exCondA\<lparr>LastTransitionTime := 9\<rparr>" exCondA]
      SetReleaseCondition_stable
        [of exStatus "exCondA\<lparr>LastTransitionTime := 9, Reason := ''Held''\<rparr>" exCondA]
      SetReleaseCondition_stable
        [of exStatus "exCondA\<lparr>LastTransitionTime := 9, Status := ''True''\<rparr>" exCondA]
    by (simp add: t) (simp add: exCondA_def)
qed

text \<open>
  Claim C7, as stated: after \<^verbatim>\<open>SetReleaseCondition\<close> on any status the list has at most
  one condition per type and is sorted. It fails on a status that is not so already: a
  call that changes nothing leaves an unsorted list unsorted, and a call that writes
  leaves two conditions of another type in place.
\<close>

theorem conditionsOrdered_counterexample:
  "\<not> conditionsOrdered (Conditions (fst
        (SetReleaseCondition \<lparr>Conditions = [exCondB, exCondA]\<rparr> exCondB)))
   \<and> \<not> conditionsOrdered (Conditions (fst
        (SetReleaseCondition \<lparr>Conditions = [exCondA, exCondA]\<rparr> exCondB)))"
  by (simp add: ex_condition_defs condition_defs)

text \<open>
  Claim C7, amended: on a status whose condition list is sorted by type with at most one
  condition per type, the list is so again after \<^verbatim>\<open>SetReleaseCondition\<close>, after
  \<^verbatim>\<open>RemoveReleaseCondition\<close> and after \<^verbatim>\<open>filterOutCondition\<close>; so it is after every
  sequence of Set and Remove calls that starts from the empty list.
\<close>

theorem conditionsOrdered_preserved:
  "(conditionsOrdered (Conditions status) \<longrightarrow>
      conditionsOrdered (Conditions (fst (SetReleaseCondition status condition)))
      \<and> conditionsOrdered (Conditions (RemoveReleaseCondition status condType))
      \<and> conditionsOrdered (filterOutCondition (Conditions status) condType))
   \<and> conditionsOrdered (Conditions (runConditionOps \<lparr>Conditions = []\<rparr> ops))"
proof -
  have set: "conditionsOrdered (Conditions (fst (SetReleaseCondition s c)))"
    if "conditionsOrdered (Conditions s)" for s c
    using that SetReleaseCondition_ordered [of s c] by (auto simp: conditionsOrdered_iff)
  have step: "conditionsOrdered (Conditions (applyConditionOp s x))"
    if "conditionsOrdered (Conditions s)" for s x
    using that set by (cases x) (simp_all add: RemoveReleaseCondition_def)
  have run: "conditionsOrdered (Conditions (foldl applyConditionOp s xs))"
    if "conditionsOrdered (Conditions s)" for s xs
    using that by (induction xs arbitrary: s) (simp_all add: step)
  have "conditionsOrdered (Conditions \<lparr>Conditions = []\<rparr>)"
    by (simp add: conditionsOrdered_def)
  then show ?thesis
    using set run conditionsOrdered_filterOut
    by (simp add: runConditionOps_def RemoveReleaseCondition_def)
qed

theorem conditionsOrdered_preserved_witness:
  "conditionsOrdered (Conditions exStatus)
   \<and> conditionsOrdered (Conditions (fst (SetReleaseCondition exStatus
        (exCondB\<lparr>Type := ''Aborted''\<rparr>))))
   \<and> Conditions (fst (SetReleaseCondition exStatus (exCondB\<lparr>Type := ''Aborted''\<rparr>)))
      = [exCondB\<lparr>Type := ''Aborted''\<rparr>, exCondA, exCondB]
   \<and> conditionsOrdered (Conditions (RemoveReleaseCondition exStatus ''Complete''))
   \<and> conditionsOrdered (filterOutCondition (Conditions exStatus) ''Complete'')
   \<and> conditionsOrdered (Conditions (runConditionOps \<lparr>Conditions = []\<rparr>
        [Set exCondB, Set exCondA, Remove ''Scheduled'', Set exCondB]))"
proof -
  have o: "conditionsOrdered (Conditions exStatus)"
    by (simp add: ex_condition_defs conditionsOrdered_def)
  have e: "Conditions (fst (SetReleaseCondition exStatus (exCondB\<lparr>Type := ''Aborted''\<rparr>)))
      = [exCondB\<lparr>Type := ''Aborted''\<rparr>, exCondA, exCondB]"
    by (simp add: ex_condition_defs condition_defs)
  show ?thesis
    using o e
      conditionsOrdered_preserved [of exStatus "exCondB\<lparr>Type := ''Aborted''\<rparr>" "''Complete''"
        "[Set exCondB, Set exCondA, Remove ''Scheduled'', Set exCondB]"]
    by simp
qed

section \<open>Results on the target objects of a release\<close>

text \<open>
  Claim C8. \<^verbatim>\<open>TargetObjectsForRelease\<close> returns the three objects exactly when each of its
  three \<^verbatim>\<open>List\<close> calls returns one item, and these are the objects returned. When the
  first kind, in the order installation, traffic, capacity, whose call returns another
  number of items is reached, the result is the \<^verbatim>\<open>UnexpectedObjectCountFromSelector\<close>
  error of that kind, and no objects. (The count that error reports is the number of
  installation targets, for every kind, as the source has it.)
\<close>

theorem TargetObjectsForRelease_exactly_one:
  "(TargetObjectsForRelease relName ns client = Inr (it, tt, ct) \<longleftrightarrow>
      InstallationTargets client ns [(ReleaseLabel, relName)] = Inr [it]
      \<and> TrafficTargets client ns [(ReleaseLabel, relName)] = Inr [tt]
      \<and> CapacityTargets client ns [(ReleaseLabel, relName)] = Inr [ct])
   \<and> (InstallationTargets client ns [(ReleaseLabel, relName)] = Inr its \<and> length its \<noteq> 1 \<longrightarrow>
        TargetObjectsForRelease relName ns client =
          Inl (UnexpectedObjectCountFromSelector [(ReleaseLabel, relName)]
                 ''InstallationTarget'' 1 (length its)))
   \<and> (InstallationTargets client ns [(ReleaseLabel, relName)] = Inr [it']
      \<and> TrafficTargets client ns [(ReleaseLabel, relName)] = Inr tts \<and> length tts \<noteq> 1 \<longrightarrow>
        TargetObjectsForRelease relName ns client =
          Inl (UnexpectedObjectCountFromSelector [(ReleaseLabel, relName)]
                 ''TrafficTarget'' 1 1))
   \<and> (InstallationTargets client ns [(ReleaseLabel, relName)] = Inr [it']
      \<and> TrafficTargets client ns [(ReleaseLabel, relName)] = Inr [tt']
      \<and> CapacityTargets client ns [(ReleaseLabel, relName)] = Inr cts \<and> length cts \<noteq> 1 \<longrightarrow>
        TargetObjectsForRelease relName ns client =
          Inl (UnexpectedObjectCountFromSelector [(ReleaseLabel, relName)]
                 ''CapacityTarget'' 1 1))"
  unfolding TargetObjectsForRelease_def Let_def
  by (auto split: sum.splits simp: length_Suc_conv)

theorem TargetObjectsForRelease_exactly_one_witness:
  "TargetObjectsForRelease ''r1'' ''ns'' (exClient (Inr [10]) (Inr [20]) (Inr [30]))
     = Inr (10, 20, 30)
   \<and> TargetObjectsForRelease ''r1'' ''ns'' (exClient (Inr []) (Inr [20]) (Inr [30]))
     = Inl (UnexpectedObjectCountFromSelector [(ReleaseLabel, ''r1'')] ''InstallationTarget'' 1 0)
   \<and> TargetObjectsForRelease ''r1'' ''ns'' (exClient (Inr [10]) (Inr [20, 21]) (Inr []))
     = Inl (UnexpectedObjectCountFromSelector [(ReleaseLabel, ''r1'')] ''TrafficTarget'' 1 1)
   \<and> TargetObjectsForRelease ''r1'' ''ns'' (exClient (Inr [10]) (Inr [20]) (Inr []))
     = Inl (UnexpectedObjectCountFromSelector [(ReleaseLabel, ''r1'')] ''CapacityTarget'' 1 1)"
  using
    TargetObjectsForRelease_exactly_one
      [of "''r1''" "''ns''" "exClient (Inr [10]) (Inr [20]) (Inr [30])" 10 20 30 "[]" 10 "[]" 20 "[]"]
    TargetObjectsForRelease_exactly_one
      [of "''r1''" "''ns''" "exClient (Inr []) (Inr [20]) (Inr [30])" 10 20 30 "[]" 10 "[]" 20 "[]"]
    TargetObjectsForRelease_exactly_one
      [of "''r1''" "''ns''" "exClient (Inr [10]) (Inr [20, 21]) (Inr [])" 10 20 30 "[]" 10
        "[20, 21]" 20 "[]"]
    TargetObjectsForRelease_exactly_one
      [of "''r1''" "''ns''" "exClient (Inr [10]) (Inr [20]) (Inr [])" 10 20 30 "[]" 10 "[]" 20 "[]"]
  by (simp add: exClient_def)

section \<open>Results on the weight table\<close>

lemma lookup2_empty: "lookup2 Map.empty c r = None"
  by (simp add: lookup2_def)

lemma oldWeight_empty: "oldWeight Map.empty c r = 0"
  by (simp add: oldWeight_def lookup2_def)

lemma addClusterWeights_None:
  "addClusterWeights r cs cr c = None \<longleftrightarrow>
     cr c = None \<and> filter (\<lambda>e. ClusterName e = c) cs = []"
  by (induction cs arbitrary: cr) (auto simp: Let_def)

lemma addClusterWeights_lookup2:
  "lookup2 (addClusterWeights r cs cr) c r' =
     (if r' = r \<and> filter (\<lambda>e. ClusterName e = c) cs \<noteq> []
      then Some (oldWeight cr c r + sum_list (map Weight (filter (\<lambda>e. ClusterName e = c) cs)))
      else lookup2 cr c r')"
proof (induction cs arbitrary: cr)
  case Nil
  then show ?case by simp
next
  case (Cons e cs)
  show ?case
    by (simp add: Cons.IH Let_def)
       (auto simp: lookup2_def oldWeight_def add.assoc split: option.splits)
qed

lemma buildLoop_succeeds_iff:
  "(\<exists>t. buildLoop tts cr rt = Inr t) \<longleftrightarrow>
     (\<forall>tt\<in>set tts. releaseOf tt \<noteq> None)
     \<and> distinct (List.map_filter releaseOf tts)
     \<and> set (List.map_filter releaseOf tts) \<inter> dom rt = {}"
proof (induction tts arbitrary: cr rt)
  case Nil
  then show ?case by simp
next
  case (Cons tt tts)
  show ?case
  proof (cases "releaseOf tt")
    case None
    then show ?thesis by (auto simp: releaseOf_def)
  next
    case (Some r)
    show ?thesis
    proof (cases "rt r")
      case None
      have "(\<exists>t. buildLoop (tt # tts) cr rt = Inr t) \<longleftrightarrow>
          (\<exists>t. buildLoop tts (addClusterWeights r (TTClusters tt) cr) (rt(r \<mapsto> tt)) = Inr t)"
        using Some None by (simp add: releaseOf_def)
      also have "\<dots> \<longleftrightarrow> (\<forall>tt\<in>set tts. releaseOf tt \<noteq> None)
         \<and> distinct (List.map_filter releaseOf tts)
         \<and> set (List.map_filter releaseOf tts) \<inter> dom (rt(r \<mapsto> tt)) = {}"
        by (rule Cons.IH)
      also have "\<dots> \<longleftrightarrow> (\<forall>tt\<in>set (tt # tts). releaseOf tt \<noteq> None)
         \<and> distinct (List.map_filter releaseOf (tt # tts))
         \<and> set (List.map_filter releaseOf (tt # tts)) \<inter> dom rt = {}"
        using Some None by auto
      finally show ?thesis .
    next
      case (Some existing)
      then show ?thesis
        using \<open>releaseOf tt = Some r\<close> by (auto simp: releaseOf_def)
    qed
  qed
qed

lemma buildLoop_fresh:
  assumes "buildLoop tts cr rt = Inr t"
  shows "set (List.map_filter releaseOf tts) \<inter> dom rt = {}"
proof -
  have "\<exists>t. buildLoop tts cr rt = Inr t"
    using assms by blast
  then show ?thesis
    by (simp only: buildLoop_succeeds_iff)
qed

lemma buildLoop_None:
  "buildLoop tts cr rt = Inr t \<Longrightarrow>
     t c = None \<longleftrightarrow> cr c = None \<and> list_all (\<lambda>tt. clusterEntries tt c = []) tts"
proof (induction tts arbitrary: cr rt)
  case Nil
  then show ?case by simp
next
  case (Cons tt tts)
  then show ?case
    by (auto simp: addClusterWeights_None clusterEntries_def split: option.splits)
qed

lemma find_releaseOf_None:
  "r \<notin> set (List.map_filter releaseOf tts) \<Longrightarrow> find (\<lambda>tt. releaseOf tt = Some r) tts = None"
  by (induction tts) (auto split: option.splits)

lemma buildLoop_lookup2:
  "buildLoop tts cr rt = Inr t \<Longrightarrow>
     lookup2 t c r =
       (case find (\<lambda>tt. releaseOf tt = Some r) tts of
          None \<Rightarrow> lookup2 cr c r
        | Some tt \<Rightarrow>
            if clusterEntries tt c = [] then lookup2 cr c r
            else Some (oldWeight cr c r + sum_list (map Weight (clusterEntries tt c))))"
proof (induction tts arbitrary: cr rt)
  case Nil
  then show ?case by simp
next
  case (Cons tt tts)
  from Cons.prems obtain q where q: "releaseOf tt = Some q" and free: "rt q = None"
    and rest: "buildLoop tts (addClusterWeights q (TTClusters tt) cr) (rt(q \<mapsto> tt)) = Inr t"
    by (auto simp: releaseOf_def split: option.splits)
  note IH = Cons.IH [OF rest]
  show ?case
  proof (cases "r = q")
    case True
    have "set (List.map_filter releaseOf tts) \<inter> dom (rt(q \<mapsto> tt)) = {}"
      by (rule buildLoop_fresh [OF rest])
    then have "q \<notin> set (List.map_filter releaseOf tts)"
      by auto
    then have "find (\<lambda>tt. releaseOf tt = Some q) tts = None"
      by (rule find_releaseOf_None)
    then show ?thesis
      using IH True q by (simp add: addClusterWeights_lookup2 clusterEntries_def)
  next
    case False
    then show ?thesis
      using IH q
      by (auto simp: addClusterWeights_lookup2 oldWeight_def split: option.splits)
  qed
qed

lemma buildClusterReleaseWeights_summed:
  assumes "buildClusterReleaseWeights tts = Inr t"
  shows "t = summedWeights tts"
proof (rule ext)
  fix c
  have none: "t c = None \<longleftrightarrow> list_all (\<lambda>tt. clusterEntries tt c = []) tts"
    using buildLoop_None [of tts Map.empty Map.empty t c] assms
    by (simp add: buildClusterReleaseWeights_def)
  have look: "lookup2 t c r =
       (case find (\<lambda>tt. releaseOf tt = Some r) tts of
          None \<Rightarrow> None
        | Some tt \<Rightarrow>
            if clusterEntries tt c = [] then None
            else Some (sum_list (map Weight (clusterEntries tt c))))" for r
    using buildLoop_lookup2 [of tts Map.empty Map.empty t c r] assms
    by (simp add: buildClusterReleaseWeights_def lookup2_empty oldWeight_empty
          split: option.splits)
  show "t c = summedWeights tts c"
  proof (cases "t c")
    case None
    then show ?thesis using none by (simp add: summedWeights_def)
  next
    case (Some m)
    have "m r = (case find (\<lambda>tt. TTLabels tt ReleaseLabel = Some r) tts of
          None \<Rightarrow> None
        | Some tt \<Rightarrow>
            if clusterEntries tt c = [] then None
            else Some (sum_list (map Weight (clusterEntries tt c))))" for r
      using look [of r] Some by (simp add: lookup2_def releaseOf_def)
    then have "m = (\<lambda>r. case find (\<lambda>tt. TTLabels tt ReleaseLabel = Some r) tts of
          None \<Rightarrow> None
        | Some tt \<Rightarrow>
            if clusterEntries tt c = [] then None
            else Some (sum_list (map Weight (clusterEntries tt c))))"
      by (intro ext)
    then show ?thesis using none Some by (simp add: summedWeights_def)
  qed
qed

lemma releasesGood_iff:
  "releasesGood tts \<longleftrightarrow>
     (\<forall>tt\<in>set tts. releaseOf tt \<noteq> None) \<and> distinct (List.map_filter releaseOf tts)"
  by (simp add: releasesGood_def list_ex_iff lacksReleaseLabel_def sameReleaseTwice_def
        releaseOf_def [abs_def])

lemma buildClusterReleaseWeights_Inr_iff:
  "buildClusterReleaseWeights tts = Inr t \<longleftrightarrow> releasesGood tts \<and> t = summedWeights tts"
proof
  assume ok: "buildClusterReleaseWeights tts = Inr t"
  then have "\<exists>t. buildLoop tts Map.empty Map.empty = Inr t"
    by (auto simp: buildClusterReleaseWeights_def)
  then have "releasesGood tts"
    by (simp only: buildLoop_succeeds_iff releasesGood_iff) simp
  then show "releasesGood tts \<and> t = summedWeights tts"
    using buildClusterReleaseWeights_summed [OF ok] by simp
next
  assume good: "releasesGood tts \<and> t = summedWeights tts"
  then have "\<exists>t. buildLoop tts Map.empty Map.empty = Inr t"
    by (simp only: buildLoop_succeeds_iff releasesGood_iff) simp
  then obtain t' where t': "buildClusterReleaseWeights tts = Inr t'"
    by (auto simp: buildClusterReleaseWeights_def)
  then show "buildClusterReleaseWeights tts = Inr t"
    using buildClusterReleaseWeights_summed [OF t'] good by simp
qed

lemma mset_map_filter:
  "mset xs = mset ys \<Longrightarrow> mset (List.map_filter f xs) = mset (List.map_filter f ys)"
  by (simp add: List.map_filter_def)

lemma releasesGood_rearranged:
  assumes "mset tts = mset tts'"
  shows "releasesGood tts = releasesGood tts'"
proof -
  have "set tts = set tts'"
    using assms by (rule mset_eq_setD)
  moreover have "distinct (List.map_filter releaseOf tts) = distinct (List.map_filter releaseOf tts')"
    using mset_map_filter [OF assms] by (rule mset_eq_imp_distinct_iff)
  ultimately show ?thesis
    by (simp add: releasesGood_iff)
qed

lemma find_release_unique:
  assumes "distinct (List.map_filter releaseOf tts)" and "tt \<in> set tts"
    and "releaseOf tt = Some r"
  shows "find (\<lambda>x. releaseOf x = Some r) tts = Some tt"
  using assms
proof (induction tts)
  case Nil
  then show ?case by simp
next
  case (Cons x xs)
  show ?case
  proof (cases "releaseOf x = Some r")
    case True
    have "tt = x"
    proof (rule ccontr)
      assume "tt \<noteq> x"
      then have "tt \<in> set xs" using Cons.prems(2) by simp
      then have "r \<in> set (List.map_filter releaseOf xs)"
        using Cons.prems(3) by (force simp: List.map_filter_def)
      then show False
        using Cons.prems(1) True by simp
    qed
    then show ?thesis using True by simp
  next
    case False
    then have "tt \<in> set xs" using Cons.prems(2,3) by auto
    moreover have "distinct (List.map_filter releaseOf xs)"
      using Cons.prems(1) by (simp add: split: option.splits)
    ultimately show ?thesis
      using Cons.IH Cons.prems(3) False by simp
  qed
qed

lemma find_release_rearranged:
  assumes "set tts = set tts'"
    and "distinct (List.map_filter releaseOf tts)"
    and "distinct (List.map_filter releaseOf tts')"
  shows "find (\<lambda>x. releaseOf x = Some r) tts = find (\<lambda>x. releaseOf x = Some r) tts'"
proof (cases "find (\<lambda>x. releaseOf x = Some r) tts")
  case None
  then have "\<forall>x\<in>set tts'. releaseOf x \<noteq> Some r"
    using assms(1) by (simp add: find_None_iff)
  then have "find (\<lambda>x. releaseOf x = Some r) tts' = None"
    by (simp add: find_None_iff)
  then show ?thesis using None by simp
next
  case (Some tt)
  then have "tt \<in> set tts'" and "releaseOf tt = Some r"
    using assms(1) by (auto simp: find_Some_iff)
  then have "find (\<lambda>x. releaseOf x = Some r) tts' = Some tt"
    using assms(3) by (intro find_release_unique)
  then show ?thesis using Some by simp
qed

lemma summedWeights_rearranged:
  assumes "mset tts = mset tts'" and "releasesGood tts"
  shows "summedWeights tts = summedWeights tts'"
proof -
  have s: "set tts = set tts'"
    using assms(1) by (rule mset_eq_setD)
  have "releasesGood tts'"
    using assms(2) releasesGood_rearranged [OF assms(1)] by simp
  then have f: "find (\<lambda>x. releaseOf x = Some r) tts = find (\<lambda>x. releaseOf x = Some r) tts'" for r
    using assms(2) s by (intro find_release_rearranged) (simp_all add: releasesGood_iff)
  show ?thesis
    using s f by (intro ext) (simp add: summedWeights_def list_all_iff releaseOf_def)
qed

lemmas ex_tt_defs = exTT1_def exTT2_def exTT1'_def exTTNoLabel_def

text \<open>
  Claim C4. \<^verbatim>\<open>buildClusterReleaseWeights\<close> returns an error exactly when some traffic
  target of the input has no release label or two of them carry the same release label.
  Otherwise it returns the table that has, for each cluster some target has an entry
  for, the releases whose target has an entry for that cluster, each with the sum of the
  weights of all those entries (the sum is taken in \<^verbatim>\<open>uint32\<close>, as \<^verbatim>\<open>+=\<close> does).
\<close>

theorem buildClusterReleaseWeights_result:
  "((\<exists>err. buildClusterReleaseWeights tts = Inl err) \<longleftrightarrow>
      list_ex lacksReleaseLabel tts \<or> sameReleaseTwice tts)
   \<and> (\<not> list_ex lacksReleaseLabel tts \<and> \<not> sameReleaseTwice tts \<longrightarrow>
        buildClusterReleaseWeights tts = Inr (summedWeights tts))"
proof (cases "releasesGood tts")
  case True
  then have "buildClusterReleaseWeights tts = Inr (summedWeights tts)"
    by (simp add: buildClusterReleaseWeights_Inr_iff)
  then show ?thesis
    using True by (simp add: releasesGood_def)
next
  case False
  have "\<exists>err. buildClusterReleaseWeights tts = Inl err"
  proof (cases "buildClusterReleaseWeights tts")
    case (Inl err)
    then show ?thesis by simp
  next
    case (Inr t)
    then show ?thesis using False by (simp add: buildClusterReleaseWeights_Inr_iff)
  qed
  then show ?thesis
    using False by (auto simp: releasesGood_def)
qed

theorem buildClusterReleaseWeights_result_witness:
  "\<not> list_ex lacksReleaseLabel [exTT1, exTT2] \<and> \<not> sameReleaseTwice [exTT1, exTT2]
   \<and> buildClusterReleaseWeights [exTT1, exTT2] = Inr (summedWeights [exTT1, exTT2])
   \<and> map_option (\<lambda>m. (m ''reviewsapi-1'', m ''reviewsapi-2''))
        (summedWeights [exTT1, exTT2] ''cluster-1'') = Some (Some 95, Some 5)
   \<and> map_option (\<lambda>m. (m ''reviewsapi-1'', m ''reviewsapi-2''))
        (summedWeights [exTT1, exTT2] ''cluster-2'') = Some (Some 7, None)
   \<and> summedWeights [exTT1, exTT2] ''cluster-3'' = None
   \<and> sameReleaseTwice [exTT1, exTT2, exTT1']
   \<and> buildClusterReleaseWeights [exTT1, exTT2, exTT1'] =
       Inl (BothOperateOnRelease ''tt-reviewsapi-1'' ''tt-reviewsapi-1b'' ''ns'' ''reviewsapi-1'')
   \<and> list_ex lacksReleaseLabel [exTT1, exTTNoLabel]
   \<and> buildClusterReleaseWeights [exTT1, exTTNoLabel] =
       Inl (NeedsReleaseLabel ''ns'' ''tt-unlabelled'')"
proof -
  have good: "\<not> list_ex lacksReleaseLabel [exTT1, exTT2] \<and> \<not> sameReleaseTwice [exTT1, exTT2]"
    by (simp add: ex_tt_defs lacksReleaseLabel_def sameReleaseTwice_def)
  have tab: "map_option (\<lambda>m. (m ''reviewsapi-1'', m ''reviewsapi-2''))
        (summedWeights [exTT1, exTT2] ''cluster-1'') = Some (Some 95, Some 5)
   \<and> map_option (\<lambda>m. (m ''reviewsapi-1'', m ''reviewsapi-2''))
        (summedWeights [exTT1, exTT2] ''cluster-2'') = Some (Some 7, None)
   \<and> summedWeights [exTT1, exTT2] ''cluster-3'' = None"
    by (simp add: ex_tt_defs summedWeights_def clusterEntries_def ReleaseLabel_def)
  have bad: "sameReleaseTwice [exTT1, exTT2, exTT1']
   \<and> buildClusterReleaseWeights [exTT1, exTT2, exTT1'] =
       Inl (BothOperateOnRelease ''tt-reviewsapi-1'' ''tt-reviewsapi-1b'' ''ns'' ''reviewsapi-1'')
   \<and> list_ex lacksReleaseLabel [exTT1, exTTNoLabel]
   \<and> buildClusterReleaseWeights [exTT1, exTTNoLabel] =
       Inl (NeedsReleaseLabel ''ns'' ''tt-unlabelled'')"
    by (simp add: ex_tt_defs lacksReleaseLabel_def sameReleaseTwice_def
          buildClusterReleaseWeights_def)
  show ?thesis
    using good tab bad buildClusterReleaseWeights_result [of "[exTT1, exTT2]"]
    by simp
qed

text \<open>
  Claim C5, as stated: the calls on a list and on a rearrangement of it return equal
  results. It fails where both calls fail: the loop returns at the first offending target
  it meets, so the error depends on the order. Here one order reports the repeated
  release and the other the missing label.
\<close>

theorem buildClusterReleaseWeights_reorder_counterexample:
  "mset [exTT1, exTT1', exTTNoLabel] = mset [exTTNoLabel, exTT1, exTT1']
   \<and> buildClusterReleaseWeights [exTT1, exTT1', exTTNoLabel] =
       Inl (BothOperateOnRelease ''tt-reviewsapi-1'' ''tt-reviewsapi-1b'' ''ns'' ''reviewsapi-1'')
   \<and> buildClusterReleaseWeights [exTTNoLabel, exTT1, exTT1'] =
       Inl (NeedsReleaseLabel ''ns'' ''tt-unlabelled'')
   \<and> buildClusterReleaseWeights [exTT1, exTT1', exTTNoLabel] \<noteq>
       buildClusterReleaseWeights [exTTNoLabel, exTT1, exTT1']"
  by (simp add: ex_tt_defs buildClusterReleaseWeights_def)

text \<open>
  Claim C5, amended: on a list and on any rearrangement of it the two calls either both
  succeed, with the same weight table, or both fail (where they fail, the error reported
  is that of the first offending target in each order).
\<close>

theorem buildClusterReleaseWeights_reorder:
  assumes "mset tts = mset tts'"
  shows "(buildClusterReleaseWeights tts = Inr t \<longleftrightarrow> buildClusterReleaseWeights tts' = Inr t)
       \<and> ((\<exists>err. buildClusterReleaseWeights tts = Inl err) \<longleftrightarrow>
          (\<exists>err. buildClusterReleaseWeights tts' = Inl err))"
proof -
  have g: "releasesGood tts = releasesGood tts'"
    using assms by (rule releasesGood_rearranged)
  have s: "summedWeights tts = summedWeights tts'" if "releasesGood tts"
    using assms that by (rule summedWeights_rearranged)
  have inr: "buildClusterReleaseWeights tts = Inr u \<longleftrightarrow> buildClusterReleaseWeights tts' = Inr u"
    for u
    using g s by (auto simp: buildClusterReleaseWeights_Inr_iff)
  have inl: "(\<exists>err. buildClusterReleaseWeights xs = Inl err) \<longleftrightarrow>
      \<not> (\<exists>u. buildClusterReleaseWeights xs = Inr u)" for xs
    by (cases "buildClusterReleaseWeights xs") simp_all
  show ?thesis
    using inr by (simp add: inl)
qed

theorem buildClusterReleaseWeights_reorder_witness:
  "mset [exTT1, exTT2] = mset [exTT2, exTT1]
   \<and> buildClusterReleaseWeights [exTT1, exTT2] = Inr (summedWeights [exTT1, exTT2])
   \<and> buildClusterReleaseWeights [exTT2, exTT1] = Inr (summedWeights [exTT1, exTT2])"
proof -
  have m: "mset [exTT1, exTT2] = mset [exTT2, exTT1]"
    by simp
  have "releasesGood [exTT1, exTT2]"
    by (simp add: releasesGood_def ex_tt_defs lacksReleaseLabel_def sameReleaseTwice_def)
  then have b: "buildClusterReleaseWeights [exTT1, exTT2] = Inr (summedWeights [exTT1, exTT2])"
    by (simp add: buildClusterReleaseWeights_Inr_iff)
  show ?thesis
    using m b buildClusterReleaseWeights_reorder [OF m, of "summedWeights [exTT1, exTT2]"]
    by simp
qed

section \<open>Results on the pod label shifter\<close>

lemma calculateReleasePodTarget_min:
  "calculateReleasePodTarget n w tp tw =
     min n (CalculateDesiredReplicaCount tp (targetPercent w tw))"
proof -
  have "min (real n) (real m) = real (min n m)" for m
    by (simp add: min_def)
  then show ?thesis
    by (simp add: calculateReleasePodTarget_def Let_def int_of_float64_def)
qed

lemma calculateReleasePodTarget_le: "calculateReleasePodTarget n w tp tw \<le> n"
  by (simp add: calculateReleasePodTarget_min)

lemma removeFromLB_result:
  "removeFromLB K cluster ns pods (n, st) =
     (n + length (filter (\<lambda>pod. \<not> disableFails K ns pod) pods),
      st\<lparr>errors := errors st @ map
            (\<lambda>pod. TargetClusterTrafficModifyingLabel cluster ns (PodName pod)
               (the (PatchPod K ns (PodName pod) (patchPodTrafficStatusLabel pod Disabled))))
            (filter (disableFails K ns) pods),
         patches := patches st @ map disableCall (filter wantsDisabling pods)\<rparr>)"
proof (induction pods arbitrary: n st)
  case Nil
  then show ?case by simp
next
  case (Cons pod pods)
  show ?case
    by (simp add: Cons.IH Let_def disableFails_def disableCall_def split: option.splits)
qed

lemma addToLB_result:
  "addToLB K cluster ns pods (n, st) =
     (n + length (filter (\<lambda>pod. \<not> enableFails K ns pod) pods),
      st\<lparr>errors := errors st @ map
            (\<lambda>pod. TargetClusterTrafficModifyingLabel cluster ns (PodName pod)
               (the (PatchPod K ns (PodName pod) (patchPodTrafficStatusLabel pod Enabled))))
            (filter (enableFails K ns) pods),
         patches := patches st @ map enableCall (filter wantsEnabling pods)\<rparr>)"
proof (induction pods arbitrary: n st)
  case Nil
  then show ?case by simp
next
  case (Cons pod pods)
  show ?case
    by (simp add: Cons.IH Let_def enableFails_def enableCall_def split: option.splits)
qed

lemma syncRelease_normal:
  "syncRelease K p cluster sel tp tw (r, w) st =
     (case ListPods K (namespace p) [(ReleaseLabel, r)] of
        Inl err \<Rightarrow> Inl (TargetClusterReleasePodListing r cluster (namespace p) err)
      | Inr pods \<Rightarrow>
          Inr (st\<lparr>achievedWeights := (achievedWeights st)
                 (r \<mapsto> releaseAchieved K (namespace p) sel tp tw w
                        (calculateReleasePodTarget (length pods) w tp tw) pods),
                 errors := errors st @
                   releaseErrors K cluster (namespace p) sel
                     (calculateReleasePodTarget (length pods) w tp tw) pods,
                 patches := patches st @
                   releasePatches sel (calculateReleasePodTarget (length pods) w tp tw) pods\<rparr>))"
proof (cases "ListPods K (namespace p) [(ReleaseLabel, r)]")
  case (Inl err)
  then show ?thesis by (simp add: syncRelease_def)
next
  case (Inr pods)
  let ?t = "calculateReleasePodTarget (length pods) w tp tw"
  let ?T = "filter (\<lambda>pod. getsTraffic pod sel) pods"
  let ?I = "filter (\<lambda>pod. \<not> getsTraffic pod sel) pods"
  have "?t \<le> length pods"
    by (rule calculateReleasePodTarget_le)
  moreover have "length ?T + length ?I = length pods"
    by (rule sum_length_filter_compl)
  ultimately have fits: "\<not> ?t - length ?T > length ?I"
    by linarith
  consider (eq) "length ?T = ?t" | (gt) "length ?T > ?t" | (lt) "length ?T < ?t"
    by linarith
  then show ?thesis
  proof cases
    case eq
    then show ?thesis
      using Inr
      by (simp add: syncRelease_def Let_def releaseAchieved_def releaseErrors_def
            releasePatches_def trafficPodsOf_def missingPods_def)
  next
    case gt
    then show ?thesis
      using Inr
      by (simp add: syncRelease_def Let_def releaseAchieved_def releaseErrors_def
            releasePatches_def trafficPodsOf_def excessPods_def finalTrafficPods_def
            removeFromLB_result)
  next
    case lt
    then show ?thesis
      using Inr fits
      by (simp add: syncRelease_def Let_def releaseAchieved_def releaseErrors_def
            releasePatches_def trafficPodsOf_def idlePodsOf_def missingPods_def
            finalTrafficPods_def addToLB_result)
  qed
qed

lemmas at_defs = podsOfRelease_def listingOk_def releasePatchesAt_def releaseErrorsAt_def
  releaseAchievedAt_def

lemma syncReleases_patches:
  "fst (syncReleases K p cluster sel tp tw entries st) =
     patches st @ concat (map (releasePatchesAt K p sel tp tw) (takeWhile (listingOk K p) entries))"
proof (induction entries arbitrary: st)
  case Nil
  then show ?case by simp
next
  case (Cons e entries)
  obtain r w where e: "e = (r, w)" by (cases e)
  show ?case
  proof (cases "ListPods K (namespace p) [(ReleaseLabel, r)]")
    case (Inl err)
    then show ?thesis
      by (simp add: e syncRelease_normal at_defs)
  next
    case (Inr pods)
    then show ?thesis
      by (simp add: e syncRelease_normal at_defs Cons.IH)
  qed
qed

lemma syncReleases_Inr:
  assumes "snd (syncReleases K p cluster sel tp tw entries st) = Inr (aw, es)"
  shows "list_all (listingOk K p) entries
       \<and> es = errors st @ concat (map (releaseErrorsAt K p cluster sel tp tw) entries)"
  using assms
proof (induction entries arbitrary: st)
  case Nil
  then show ?case by simp
next
  case (Cons e entries)
  obtain r w where e: "e = (r, w)" by (cases e)
  show ?case
  proof (cases "ListPods K (namespace p) [(ReleaseLabel, r)]")
    case (Inl err)
    then show ?thesis
      using Cons.prems by (simp add: e syncRelease_normal)
  next
    case (Inr pods)
    then obtain st' where step: "syncRelease K p cluster sel tp tw (r, w) st = Inr st'"
      and errs: "errors st' = errors st @ releaseErrorsAt K p cluster sel tp tw (r, w)"
      by (simp add: syncRelease_normal at_defs)
    have "snd (syncReleases K p cluster sel tp tw entries st') = Inr (aw, es)"
      using Cons.prems step by (simp add: e)
    then have "list_all (listingOk K p) entries
       \<and> es = errors st' @ concat (map (releaseErrorsAt K p cluster sel tp tw) entries)"
      by (rule Cons.IH)
    moreover have "listingOk K p (r, w)"
      using Inr by (simp add: listingOk_def podsOfRelease_def)
    ultimately show ?thesis
      using errs by (simp add: e)
  qed
qed

lemma syncReleases_achieved:
  assumes "snd (syncReleases K p cluster sel tp tw entries st) = Inr (aw, es)"
    and "distinct (map fst entries)"
  shows "aw r =
     (case map_of entries r of
        None \<Rightarrow> achievedWeights st r
      | Some w \<Rightarrow> releaseAchievedAt K p sel tp tw (r, w))"
  using assms
proof (induction entries arbitrary: st)
  case Nil
  then show ?case by simp
next
  case (Cons e entries)
  obtain r' w' where e: "e = (r', w')" by (cases e)
  have fresh: "map_of entries r' = None"
    using Cons.prems(2) by (simp add: e map_of_eq_None_iff)
  show ?case
  proof (cases "ListPods K (namespace p) [(ReleaseLabel, r')]")
    case (Inl err)
    then show ?thesis
      using Cons.prems by (simp add: e syncRelease_normal)
  next
    case (Inr pods)
    then obtain st' where step: "syncRelease K p cluster sel tp tw (r', w') st = Inr st'"
      and ach: "achievedWeights st' =
        (achievedWeights st)(r' \<mapsto> the (releaseAchievedAt K p sel tp tw (r', w')))"
      and some: "releaseAchievedAt K p sel tp tw (r', w') \<noteq> None"
      by (simp add: syncRelease_normal at_defs)
    have "snd (syncReleases K p cluster sel tp tw entries st') = Inr (aw, es)"
      using Cons.prems(1) step by (simp add: e)
    moreover have "distinct (map fst entries)"
      using Cons.prems(2) by simp
    ultimately have "aw r =
       (case map_of entries r of
          None \<Rightarrow> achievedWeights st' r
        | Some w \<Rightarrow> releaseAchievedAt K p sel tp tw (r, w))"
      by (rule Cons.IH)
    then show ?thesis
      using fresh ach some by (auto simp: e split: option.splits)
  qed
qed

lemma SyncCluster_run:
  assumes "clusterReleaseWeights p cluster = Some rw"
    and "ListServices K (namespace p) (serviceSelector p) = Inr [svc]"
    and "SvcSelector svc = Some sel"
    and "ListPods K (namespace p) [(AppLabel, appName p)] = Inr pods"
  shows "SyncCluster p order cluster K =
     syncReleases K p cluster sel (length pods) (sumWeights (rangeEntries rw order))
       (rangeEntries rw order) \<lparr>achievedWeights = Map.empty, errors = [], patches = []\<rparr>"
  using assms by (simp add: SyncCluster_def Let_def)

lemma SyncCluster_cases:
  obtains (fatal) err where "SyncCluster p order cluster K = ([], Inl err)"
  | (run) rw svc sel pods where "clusterReleaseWeights p cluster = Some rw"
    and "ListServices K (namespace p) (serviceSelector p) = Inr [svc]"
    and "SvcSelector svc = Some sel"
    and "ListPods K (namespace p) [(AppLabel, appName p)] = Inr pods"
proof (cases "clusterReleaseWeights p cluster")
  case None
  then show ?thesis by (intro fatal) (simp add: SyncCluster_def)
next
  case rw: (Some rw)
  show ?thesis
  proof (cases "ListServices K (namespace p) (serviceSelector p)")
    case (Inl err)
    then show ?thesis using rw by (intro fatal) (simp add: SyncCluster_def)
  next
    case (Inr items)
    show ?thesis
    proof (cases "length items = 1")
      case False
      then show ?thesis using rw Inr by (intro fatal) (simp add: SyncCluster_def)
    next
      case True
      then obtain svc where items: "items = [svc]"
        by (auto simp: length_Suc_conv)
      show ?thesis
      proof (cases "SvcSelector svc")
        case None
        then show ?thesis using rw Inr items by (intro fatal) (simp add: SyncCluster_def)
      next
        case sel: (Some sel)
        show ?thesis
        proof (cases "ListPods K (namespace p) [(AppLabel, appName p)]")
          case (Inl err)
          then show ?thesis
            using rw Inr items sel by (intro fatal) (simp add: SyncCluster_def)
        next
          case pods: (Inr pods)
          show ?thesis
            using rw Inr items sel pods by (intro run) simp_all
        qed
      qed
    qed
  qed
qed

lemma rangeEntries_fst: "map fst (rangeEntries rw order) = filter (\<lambda>r. rw r \<noteq> None) order"
  by (induction order) (auto simp: rangeEntries_def split: option.splits)

lemma rangeEntries_distinct: "distinct order \<Longrightarrow> distinct (map fst (rangeEntries rw order))"
  by (simp add: rangeEntries_fst)

lemma rangeEntries_set:
  "set (rangeEntries rw order) = {(r, w). r \<in> set order \<and> rw r = Some w}"
  by (induction order) (auto simp: rangeEntries_def split: option.splits)

lemma wantsDisabling_iff:
  "wantsDisabling pod \<longleftrightarrow> PodLabels pod PodTrafficStatusLabel \<in> {None, Some Enabled}"
  by (auto simp: wantsDisabling_def split: option.splits)

lemma wantsEnabling_iff:
  "wantsEnabling pod \<longleftrightarrow> PodLabels pod PodTrafficStatusLabel \<in> {None, Some Disabled}"
  by (auto simp: wantsEnabling_def split: option.splits)

lemma releasePatches_justified:
  assumes "call \<in> set (releasePatches sel t pods)"
  shows "\<exists>pod\<in>set pods. (wantsDisabling pod \<and> call = disableCall pod)
                         \<or> (wantsEnabling pod \<and> call = enableCall pod)"
proof (cases "length (trafficPodsOf sel pods) > t")
  case True
  then obtain pod where "pod \<in> set (excessPods sel t pods)" "wantsDisabling pod"
    "call = disableCall pod"
    using assms by (auto simp: releasePatches_def)
  moreover have "set (excessPods sel t pods) \<subseteq> set pods"
    using set_take_subset [of "length (trafficPodsOf sel pods) - t" "trafficPodsOf sel pods"]
    by (auto simp: excessPods_def trafficPodsOf_def)
  ultimately show ?thesis by blast
next
  case False
  then obtain pod where "pod \<in> set (missingPods sel t pods)" "wantsEnabling pod"
    "call = enableCall pod"
    using assms by (auto simp: releasePatches_def)
  moreover have "set (missingPods sel t pods) \<subseteq> set pods"
    using set_take_subset [of "t - length (trafficPodsOf sel pods)" "idlePodsOf sel pods"]
    by (auto simp: missingPods_def idlePodsOf_def)
  ultimately show ?thesis by blast
qed

lemma releasePatches_settled:
  "length (trafficPodsOf sel pods) = t \<Longrightarrow> releasePatches sel t pods = []"
  by (simp add: releasePatches_def missingPods_def)

lemma releasePatches_drain:
  "releasePatches sel 0 pods = map disableCall (filter wantsDisabling (trafficPodsOf sel pods))"
  by (simp add: releasePatches_def excessPods_def missingPods_def)

lemmas label_defs = AppLabel_def ReleaseLabel_def LBLabel_def LBForProduction_def
  PodTrafficStatusLabel_def Enabled_def Disabled_def

lemmas ex_traffic_defs = exPod_def exService_def exCluster_def exShifter_def exPodsShift_def
  exPodsShifted_def exPodsSix_def exPodsSixSettled_def exPodsSeven_def exPodsTen_def
  exPodStray_def exPodsStray_def

lemma outcomeOf_SomeD:
  assumes "outcomeOf res releases = Some (as, errs)"
  obtains aw where "snd res = Inr (aw, errs)" and "map aw releases = as"
  using assms by (auto simp: outcomeOf_def split: sum.splits)

lemma ex_prelude:
  "clusterReleaseWeights (exShifter rw) ''cluster-1'' = Some rw"
  "ListServices (exCluster pods failing) (namespace (exShifter rw)) (serviceSelector (exShifter rw))
     = Inr [exService]"
  "SvcSelector exService = Some exSelector"
  by (simp_all add: exShifter_def exCluster_def exService_def exSelector_def)

text \<open>Every call of a run comes from one of the two inner loops, on a pod that was listed.\<close>

lemma SyncCluster_call_cases:
  assumes "call \<in> set (fst (SyncCluster p order cluster K))"
  obtains release pods pod
  where "ListPods K (namespace p) [(ReleaseLabel, release)] = Inr pods"
    and "pod \<in> set pods"
    and "(wantsDisabling pod \<and> call = disableCall pod)
       \<or> (wantsEnabling pod \<and> call = enableCall pod)"
proof (cases p order cluster K rule: SyncCluster_cases)
  case (fatal err)
  then show ?thesis using assms by simp
next
  case (run rw' svc' sel' pods')
  let ?tw = "sumWeights (rangeEntries rw' order)"
  obtain e where "call \<in> set (releasePatchesAt K p sel' (length pods') ?tw e)"
    using assms unfolding SyncCluster_run [OF run] syncReleases_patches by auto
  then obtain rp where rp: "ListPods K (namespace p) [(ReleaseLabel, fst e)] = Inr rp"
    and c: "call \<in> set (releasePatches sel'
          (calculateReleasePodTarget (length rp) (snd e) (length pods') ?tw) rp)"
    by (cases "ListPods K (namespace p) [(ReleaseLabel, fst e)]")
       (simp_all add: releasePatchesAt_def podsOfRelease_def)
  obtain pod where "pod \<in> set rp"
    and "(wantsDisabling pod \<and> call = disableCall pod)
       \<or> (wantsEnabling pod \<and> call = enableCall pod)"
    using releasePatches_justified [OF c] by blast
  then show ?thesis
    using rp that by blast
qed

text \<open>
  Claim C9. The patch \<^verbatim>\<open>patchPodTrafficStatusLabel\<close> builds for a pod and a value is a
  list of exactly one operation, whose path is /metadata/labels/ followed by the
  traffic-status label, whose value is the given value, and whose op is add when the
  traffic-status label is absent from the pod's labels and replace otherwise. Every patch
  a run of \<^verbatim>\<open>SyncCluster\<close> sends is such a patch, for the pod it is sent to, with the value
  \<^verbatim>\<open>Enabled\<close> or \<^verbatim>\<open>Disabled\<close>.
\<close>

theorem patchPodTrafficStatusLabel_shape:
  "patchPodTrafficStatusLabel pod v =
     [\<lparr>Op = (if PodLabels pod PodTrafficStatusLabel = None then ''add'' else ''replace''),
       Path = ''/metadata/labels/'' @ PodTrafficStatusLabel,
       Value = v\<rparr>]
   \<and> (\<forall>call\<in>set (fst (SyncCluster p order cluster K)).
        \<exists>(target::Pod) intended.
          fst call = PodName target \<and> intended \<in> {Enabled, Disabled}
          \<and> snd call =
             [\<lparr>Op = (if PodLabels target PodTrafficStatusLabel = None
                      then ''add'' else ''replace''),
               Path = ''/metadata/labels/'' @ PodTrafficStatusLabel,
               Value = intended\<rparr>])"
proof -
  have shape: "patchPodTrafficStatusLabel q w =
     [\<lparr>Op = (if PodLabels q PodTrafficStatusLabel = None then ''add'' else ''replace''),
       Path = ''/metadata/labels/'' @ PodTrafficStatusLabel,
       Value = w\<rparr>]" for q w
    by (simp add: patchPodTrafficStatusLabel_def split: option.splits)
  have "\<exists>(target::Pod) intended.
          fst call = PodName target \<and> intended \<in> {Enabled, Disabled}
          \<and> snd call =
             [\<lparr>Op = (if PodLabels target PodTrafficStatusLabel = None
                      then ''add'' else ''replace''),
               Path = ''/metadata/labels/'' @ PodTrafficStatusLabel,
               Value = intended\<rparr>]"
    if sent: "call \<in> set (fst (SyncCluster p order cluster K))" for call
  proof -
    obtain release pods target
      where "ListPods K (namespace p) [(ReleaseLabel, release)] = Inr pods"
        and "target \<in> set pods"
        and "(wantsDisabling target \<and> call = disableCall target)
           \<or> (wantsEnabling target \<and> call = enableCall target)"
      using sent by (rule SyncCluster_call_cases)
    then consider "call = (PodName target, patchPodTrafficStatusLabel target Disabled)"
      | "call = (PodName target, patchPodTrafficStatusLabel target Enabled)"
      by (auto simp: disableCall_def enableCall_def)
    then show ?thesis
    proof cases
      case 1
      then have h: "fst call = PodName target \<and> Disabled \<in> {Enabled, Disabled}
          \<and> snd call =
             [\<lparr>Op = (if PodLabels target PodTrafficStatusLabel = None
                      then ''add'' else ''replace''),
               Path = ''/metadata/labels/'' @ PodTrafficStatusLabel,
               Value = Disabled\<rparr>]"
        by (simp add: shape)
      show ?thesis
        by (intro exI, rule h)
    next
      case 2
      then have h: "fst call = PodName target \<and> Enabled \<in> {Enabled, Disabled}
          \<and> snd call =
             [\<lparr>Op = (if PodLabels target PodTrafficStatusLabel = None
                      then ''add'' else ''replace''),
               Path = ''/metadata/labels/'' @ PodTrafficStatusLabel,
               Value = Enabled\<rparr>]"
        by (simp add: shape)
      show ?thesis
        by (intro exI, rule h)
    qed
  qed
  then show ?thesis
    using shape by blast
qed

theorem patchPodTrafficStatusLabel_shape_witness:
  "patchPodTrafficStatusLabel exPodBare Enabled =
     [\<lparr>Op = ''add'', Path = ''/metadata/labels/traffic-status'', Value = ''enabled''\<rparr>]
   \<and> patchPodTrafficStatusLabel (exPod ''a1'' ''r1'' Enabled) Disabled =
     [\<lparr>Op = ''replace'', Path = ''/metadata/labels/traffic-status'', Value = ''disabled''\<rparr>]
   \<and> map fst (fst (SyncCluster (exShifter exHalves) [''r1'', ''r2''] ''cluster-1''
        (exCluster exPodsShift []))) = [''a1'', ''b1'']
   \<and> map (map Op \<circ> snd) (fst (SyncCluster (exShifter exHalves) [''r1'', ''r2''] ''cluster-1''
        (exCluster exPodsShift []))) = [[''replace''], [''replace'']]
   \<and> map (map Value \<circ> snd) (fst (SyncCluster (exShifter exHalves) [''r1'', ''r2''] ''cluster-1''
        (exCluster exPodsShift []))) = [[Disabled], [Enabled]]"
proof -
  have "PodLabels exPodBare PodTrafficStatusLabel = None"
    and "PodLabels (exPod ''a1'' ''r1'' Enabled) PodTrafficStatusLabel \<noteq> None"
    by (simp_all add: exPodBare_def exPod_def label_defs)
  moreover have "map fst (fst (SyncCluster (exShifter exHalves) [''r1'', ''r2''] ''cluster-1''
        (exCluster exPodsShift []))) = [''a1'', ''b1'']
   \<and> map (map Op \<circ> snd) (fst (SyncCluster (exShifter exHalves) [''r1'', ''r2''] ''cluster-1''
        (exCluster exPodsShift []))) = [[''replace''], [''replace'']]
   \<and> map (map Value \<circ> snd) (fst (SyncCluster (exShifter exHalves) [''r1'', ''r2''] ''cluster-1''
        (exCluster exPodsShift []))) = [[Disabled], [Enabled]]"
    by code_simp
  ultimately show ?thesis
    using
      patchPodTrafficStatusLabel_shape [where pod = exPodBare and v = Enabled
        and p = "exShifter exHalves" and order = "[''r1'', ''r2'']" and cluster = "''cluster-1''"
        and K = "exCluster exPodsShift []", THEN conjunct1]
      patchPodTrafficStatusLabel_shape [where pod = "exPod ''a1'' ''r1'' Enabled"
        and v = Disabled
        and p = "exShifter exHalves" and order = "[''r1'', ''r2'']" and cluster = "''cluster-1''"
        and K = "exCluster exPodsShift []", THEN conjunct1]
    by (simp add: label_defs)
qed

text \<open>
  Claim C10. The branch of \<^verbatim>\<open>SyncCluster\<close> that reports
  \<^verbatim>\<open>NewTargetClusterMathError\<close> is never taken: for any pods of a release, the number
  missing (the target number less the traffic pods) is at most the number of idle pods,
  since the target is clamped to the number of pods and the pods are split into traffic
  pods and idle pods; and no run returns such an error among its per-pod errors.
\<close>

theorem SyncCluster_never_math_error:
  "calculateReleasePodTarget (length pods) weight totalPods totalWeight
     - length (filter (\<lambda>pod. getsTraffic pod sel) pods)
     \<le> length (filter (\<lambda>pod. \<not> getsTraffic pod sel) pods)
   \<and> (snd (SyncCluster p order cluster K) = Inr (aw, errs) \<longrightarrow>
        TargetClusterMath release idle missing \<notin> set errs)"
proof
  have "calculateReleasePodTarget (length pods) weight totalPods totalWeight \<le> length pods"
    by (rule calculateReleasePodTarget_le)
  moreover have "length (filter (\<lambda>pod. getsTraffic pod sel) pods)
      + length (filter (\<lambda>pod. \<not> getsTraffic pod sel) pods) = length pods"
    by (rule sum_length_filter_compl)
  ultimately show "calculateReleasePodTarget (length pods) weight totalPods totalWeight
     - length (filter (\<lambda>pod. getsTraffic pod sel) pods)
     \<le> length (filter (\<lambda>pod. \<not> getsTraffic pod sel) pods)"
    by linarith
next
  show "snd (SyncCluster p order cluster K) = Inr (aw, errs) \<longrightarrow>
        TargetClusterMath release idle missing \<notin> set errs"
  proof
    assume ok: "snd (SyncCluster p order cluster K) = Inr (aw, errs)"
    show "TargetClusterMath release idle missing \<notin> set errs"
    proof (cases p order cluster K rule: SyncCluster_cases)
      case (fatal err)
      then show ?thesis using ok by simp
    next
      case (run rw svc sel' pods')
      have "errs = concat (map (releaseErrorsAt K p cluster sel' (length pods')
          (sumWeights (rangeEntries rw order))) (rangeEntries rw order))"
        using ok syncReleases_Inr unfolding SyncCluster_run [OF run] by fastforce
      then show ?thesis
        by (auto simp: releaseErrorsAt_def releaseErrors_def split: sum.splits if_splits)
    qed
  qed
qed

theorem SyncCluster_never_math_error_witness:
  "outcomeOf (SyncCluster (exShifter exHalves) [''r1'', ''r2''] ''cluster-1''
      (exCluster exPodsShift [''b1''])) [''r1'', ''r2'']
     = Some ([Some (Achieved 50), Some (Achieved 0)],
             [TargetClusterTrafficModifyingLabel ''cluster-1'' ''ns'' ''b1'' ''conflict''])
   \<and> calculateReleasePodTarget (length [exPod ''b1'' ''r2'' Disabled]) 50 4 100
       - length (filter (\<lambda>pod. getsTraffic pod exSelector) [exPod ''b1'' ''r2'' Disabled])
       \<le> length (filter (\<lambda>pod. \<not> getsTraffic pod exSelector) [exPod ''b1'' ''r2'' Disabled])
   \<and> TargetClusterMath ''r2'' 1 1
       \<notin> set [TargetClusterTrafficModifyingLabel ''cluster-1'' ''ns'' ''b1'' ''conflict'']"
proof -
  have e: "outcomeOf (SyncCluster (exShifter exHalves) [''r1'', ''r2''] ''cluster-1''
      (exCluster exPodsShift [''b1''])) [''r1'', ''r2'']
     = Some ([Some (Achieved 50), Some (Achieved 0)],
             [TargetClusterTrafficModifyingLabel ''cluster-1'' ''ns'' ''b1'' ''conflict''])"
    by code_simp
  then obtain aw where aw: "snd (SyncCluster (exShifter exHalves) [''r1'', ''r2''] ''cluster-1''
      (exCluster exPodsShift [''b1''])) =
      Inr (aw, [TargetClusterTrafficModifyingLabel ''cluster-1'' ''ns'' ''b1'' ''conflict''])"
    by (rule outcomeOf_SomeD)
  show ?thesis
    using e aw
      SyncCluster_never_math_error [of "[exPod ''b1'' ''r2'' Disabled]" 50 4 100 exSelector
        "exShifter exHalves" "[''r1'', ''r2'']" "''cluster-1''" "exCluster exPodsShift [''b1'']"
        aw "[TargetClusterTrafficModifyingLabel ''cluster-1'' ''ns'' ''b1'' ''conflict'']"
        "''r2''" 1 1]
    by simp
qed

text \<open>
  Claim C3. Every \<^verbatim>\<open>Patch\<close> call of a run of \<^verbatim>\<open>SyncCluster\<close> is on a pod the lister
  returned for a release, and either sets the traffic-status label to \<^verbatim>\<open>Disabled\<close> where
  it is absent or \<^verbatim>\<open>Enabled\<close>, or sets it to \<^verbatim>\<open>Enabled\<close> where it is absent or
  \<^verbatim>\<open>Disabled\<close>. A run on a cluster that is at the target split makes no call.
\<close>

theorem SyncCluster_patches_minimal:
  "(\<forall>call\<in>set (fst (SyncCluster p order cluster K)).
      \<exists>release pods pod.
        ListPods K (namespace p) [(ReleaseLabel, release)] = Inr pods \<and> pod \<in> set pods
        \<and> ((PodLabels pod PodTrafficStatusLabel \<in> {None, Some Enabled}
             \<and> call = (PodName pod, patchPodTrafficStatusLabel pod Disabled))
           \<or> (PodLabels pod PodTrafficStatusLabel \<in> {None, Some Disabled}
             \<and> call = (PodName pod, patchPodTrafficStatusLabel pod Enabled))))
   \<and> (clusterReleaseWeights p cluster = Some rw
      \<and> ListServices K (namespace p) (serviceSelector p) = Inr [svc]
      \<and> SvcSelector svc = Some sel
      \<and> ListPods K (namespace p) [(AppLabel, appName p)] = Inr pods
      \<and> atTargetSplit K p sel (length pods) rw order \<longrightarrow>
        fst (SyncCluster p order cluster K) = [])"
proof
  show "\<forall>call\<in>set (fst (SyncCluster p order cluster K)).
      \<exists>release pods pod.
        ListPods K (namespace p) [(ReleaseLabel, release)] = Inr pods \<and> pod \<in> set pods
        \<and> ((PodLabels pod PodTrafficStatusLabel \<in> {None, Some Enabled}
             \<and> call = (PodName pod, patchPodTrafficStatusLabel pod Disabled))
           \<or> (PodLabels pod PodTrafficStatusLabel \<in> {None, Some Disabled}
             \<and> call = (PodName pod, patchPodTrafficStatusLabel pod Enabled)))"
  proof
    fix call
    assume call: "call \<in> set (fst (SyncCluster p order cluster K))"
    show "\<exists>release pods pod.
        ListPods K (namespace p) [(ReleaseLabel, release)] = Inr pods \<and> pod \<in> set pods
        \<and> ((PodLabels pod PodTrafficStatusLabel \<in> {None, Some Enabled}
             \<and> call = (PodName pod, patchPodTrafficStatusLabel pod Disabled))
           \<or> (PodLabels pod PodTrafficStatusLabel \<in> {None, Some Disabled}
             \<and> call = (PodName pod, patchPodTrafficStatusLabel pod Enabled)))"
    proof -
      obtain release pods pod
        where "ListPods K (namespace p) [(ReleaseLabel, release)] = Inr pods"
          and "pod \<in> set pods"
          and "(wantsDisabling pod \<and> call = disableCall pod)
             \<or> (wantsEnabling pod \<and> call = enableCall pod)"
        using call by (rule SyncCluster_call_cases)
      then show ?thesis
        unfolding wantsDisabling_iff wantsEnabling_iff disableCall_def enableCall_def
        by blast
    qed
  qed
next
  show "clusterReleaseWeights p cluster = Some rw
      \<and> ListServices K (namespace p) (serviceSelector p) = Inr [svc]
      \<and> SvcSelector svc = Some sel
      \<and> ListPods K (namespace p) [(AppLabel, appName p)] = Inr pods
      \<and> atTargetSplit K p sel (length pods) rw order \<longrightarrow>
        fst (SyncCluster p order cluster K) = []"
  proof
    assume h: "clusterReleaseWeights p cluster = Some rw
      \<and> ListServices K (namespace p) (serviceSelector p) = Inr [svc]
      \<and> SvcSelector svc = Some sel
      \<and> ListPods K (namespace p) [(AppLabel, appName p)] = Inr pods
      \<and> atTargetSplit K p sel (length pods) rw order"
    let ?tw = "sumWeights (rangeEntries rw order)"
    have run: "SyncCluster p order cluster K =
       syncReleases K p cluster sel (length pods) ?tw (rangeEntries rw order)
         \<lparr>achievedWeights = Map.empty, errors = [], patches = []\<rparr>"
      using h SyncCluster_run [of p cluster rw K svc sel pods order] by simp
    have "releasePatchesAt K p sel (length pods) ?tw e = []"
      if "e \<in> set (rangeEntries rw order)" for e
      using h that
      by (auto simp: atTargetSplit_def list_all_iff releasePatchesAt_def podsOfRelease_def
            trafficPodsOf_def releasePatches_settled split: sum.splits)
    then have "concat (map (releasePatchesAt K p sel (length pods) ?tw)
        (takeWhile (listingOk K p) (rangeEntries rw order))) = []"
      by (auto dest: set_takeWhileD)
    then show "fst (SyncCluster p order cluster K) = []"
      unfolding run syncReleases_patches by simp
  qed
qed

theorem SyncCluster_patches_minimal_witness:
  "fst (SyncCluster (exShifter exHalves) [''r1'', ''r2''] ''cluster-1'' (exCluster exPodsShift []))
     = [(''a1'', [\<lparr>Op = ''replace'', Path = ''/metadata/labels/traffic-status'',
                   Value = ''disabled''\<rparr>]),
        (''b1'', [\<lparr>Op = ''replace'', Path = ''/metadata/labels/traffic-status'',
                   Value = ''enabled''\<rparr>])]
   \<and> ListPods (exCluster exPodsShifted []) (namespace (exShifter exHalves))
        [(AppLabel, appName (exShifter exHalves))] = Inr exPodsShifted
   \<and> atTargetSplit (exCluster exPodsShifted []) (exShifter exHalves) exSelector
        (length exPodsShifted) exHalves [''r1'', ''r2'']
   \<and> fst (SyncCluster (exShifter exHalves) [''r1'', ''r2''] ''cluster-1''
        (exCluster exPodsShifted [])) = []
   \<and> calculateReleasePodTarget 6 5 6 6 = 6
   \<and> fst (SyncCluster (exShifter exFiveToOne) [''r1'', ''r2''] ''cluster-1''
        (exCluster exPodsSix []))
     = [(''a6'', [\<lparr>Op = ''replace'', Path = ''/metadata/labels/traffic-status'',
                   Value = ''enabled''\<rparr>])]
   \<and> ListPods (exCluster exPodsSixSettled []) (namespace (exShifter exFiveToOne))
        [(AppLabel, appName (exShifter exFiveToOne))] = Inr exPodsSixSettled
   \<and> atTargetSplit (exCluster exPodsSixSettled []) (exShifter exFiveToOne) exSelector
        (length exPodsSixSettled) exFiveToOne [''r2'', ''r1'']
   \<and> fst (SyncCluster (exShifter exFiveToOne) [''r2'', ''r1''] ''cluster-1''
        (exCluster exPodsSixSettled [])) = []"
proof -
  have shift: "fst (SyncCluster (exShifter exHalves) [''r1'', ''r2''] ''cluster-1''
       (exCluster exPodsShift []))
     = [(''a1'', [\<lparr>Op = ''replace'', Path = ''/metadata/labels/traffic-status'',
                   Value = ''disabled''\<rparr>]),
        (''b1'', [\<lparr>Op = ''replace'', Path = ''/metadata/labels/traffic-status'',
                   Value = ''enabled''\<rparr>])]"
    by code_simp
  have pods: "ListPods (exCluster exPodsShifted []) (namespace (exShifter exHalves))
        [(AppLabel, appName (exShifter exHalves))] = Inr exPodsShifted"
    by (simp add: ex_traffic_defs label_defs)
  have shifted: "atTargetSplit (exCluster exPodsShifted []) (exShifter exHalves) exSelector
        (length exPodsShifted) exHalves [''r1'', ''r2'']"
    by code_simp
  have target: "calculateReleasePodTarget 6 5 6 6 = 6"
    by code_simp
  have six: "fst (SyncCluster (exShifter exFiveToOne) [''r1'', ''r2''] ''cluster-1''
        (exCluster exPodsSix []))
     = [(''a6'', [\<lparr>Op = ''replace'', Path = ''/metadata/labels/traffic-status'',
                   Value = ''enabled''\<rparr>])]"
    by code_simp
  have pods': "ListPods (exCluster exPodsSixSettled []) (namespace (exShifter exFiveToOne))
        [(AppLabel, appName (exShifter exFiveToOne))] = Inr exPodsSixSettled"
    by (simp add: ex_traffic_defs label_defs)
  have settled: "atTargetSplit (exCluster exPodsSixSettled []) (exShifter exFiveToOne)
        exSelector (length exPodsSixSettled) exFiveToOne [''r2'', ''r1'']"
    by code_simp
  have "fst (SyncCluster (exShifter exHalves) [''r1'', ''r2''] ''cluster-1''
        (exCluster exPodsShifted [])) = []"
    using pods shifted
      SyncCluster_patches_minimal [of "exShifter exHalves" "[''r1'', ''r2'']" "''cluster-1''"
        "exCluster exPodsShifted []" exHalves exService exSelector exPodsShifted]
    by (simp add: ex_prelude)
  moreover have "fst (SyncCluster (exShifter exFiveToOne) [''r2'', ''r1''] ''cluster-1''
        (exCluster exPodsSixSettled [])) = []"
    using pods' settled
      SyncCluster_patches_minimal [of "exShifter exFiveToOne" "[''r2'', ''r1'']" "''cluster-1''"
        "exCluster exPodsSixSettled []" exFiveToOne exService exSelector exPodsSixSettled]
    by (simp add: ex_prelude)
  ultimately show ?thesis
    using shift pods shifted target six pods' settled
    by (intro conjI)
qed

text \<open>
  Claim C1, as stated: with the weights summing to zero no pod patch is emitted, however
  many pods carry traffic. It fails: the target number is 0, so every pod of a release
  that gets traffic is in excess and is patched to \<^verbatim>\<open>Disabled\<close>. Here the three pods of
  r1 are.
\<close>

theorem SyncCluster_zero_total_weight_counterexample:
  "sumWeights (rangeEntries exZeros [''r1'', ''r2'']) = 0
   \<and> fst (SyncCluster (exShifter exZeros) [''r1'', ''r2''] ''cluster-1''
        (exCluster exPodsShift []))
     = [(''a1'', [\<lparr>Op = ''replace'', Path = ''/metadata/labels/traffic-status'',
                   Value = ''disabled''\<rparr>]),
        (''a2'', [\<lparr>Op = ''replace'', Path = ''/metadata/labels/traffic-status'',
                   Value = ''disabled''\<rparr>]),
        (''a3'', [\<lparr>Op = ''replace'', Path = ''/metadata/labels/traffic-status'',
                   Value = ''disabled''\<rparr>])]"
  by code_simp

text \<open>
  Claim C1, amended: with the weights summing to zero the target percent and the target
  number of pods of every release are 0, and a run that returns without a fatal error has
  emitted, for each release in turn, one patch to \<^verbatim>\<open>Disabled\<close> for each of its pods
  that gets traffic and whose traffic-status label is absent or \<^verbatim>\<open>Enabled\<close>, and no
  other patch. So it emits none only where no such pod gets traffic.
\<close>

theorem SyncCluster_zero_total_weight:
  assumes "clusterReleaseWeights p cluster = Some rw"
    and "ListServices K (namespace p) (serviceSelector p) = Inr [svc]"
    and "SvcSelector svc = Some sel"
    and "ListPods K (namespace p) [(AppLabel, appName p)] = Inr pods"
    and "sumWeights (rangeEntries rw order) = 0"
  shows "targetPercent weight (sumWeights (rangeEntries rw order)) = 0
       \<and> calculateReleasePodTarget releasePods weight (length pods)
           (sumWeights (rangeEntries rw order)) = 0
       \<and> (\<forall>call\<in>set (fst (SyncCluster p order cluster K)).
            \<exists>e\<in>set (rangeEntries rw order). call \<in> set (drainPatches K p sel (fst e)))
       \<and> (snd (SyncCluster p order cluster K) = Inr (aw, errs) \<longrightarrow>
            fst (SyncCluster p order cluster K) =
              concat (map (\<lambda>e. drainPatches K p sel (fst e)) (rangeEntries rw order)))"
proof -
  have zero: "calculateReleasePodTarget n w tp 0 = 0" for n w tp
    by (simp add: calculateReleasePodTarget_min CalculateDesiredReplicaCount_def
          targetPercent_def float64_div_def float64_mul_def roundFloat64_zero Ceil_def)
  have run: "SyncCluster p order cluster K =
       syncReleases K p cluster sel (length pods) 0 (rangeEntries rw order)
         \<lparr>achievedWeights = Map.empty, errors = [], patches = []\<rparr>"
    using assms SyncCluster_run [OF assms(1-4), of order] by simp
  have drain: "releasePatchesAt K p sel (length pods) 0 = (\<lambda>e. drainPatches K p sel (fst e))"
    by (rule ext)
       (simp add: releasePatchesAt_def podsOfRelease_def drainPatches_def zero
          releasePatches_drain trafficPodsOf_def disableCall_def wantsDisabling_iff [abs_def]
          split: sum.splits)
  have "fst (SyncCluster p order cluster K) =
      concat (map (\<lambda>e. drainPatches K p sel (fst e)) (rangeEntries rw order))"
    if ok: "snd (SyncCluster p order cluster K) = Inr (aw, errs)"
  proof -
    have "list_all (listingOk K p) (rangeEntries rw order)"
      using ok syncReleases_Inr unfolding run by blast
    then have tw: "takeWhile (listingOk K p) (rangeEntries rw order) = rangeEntries rw order"
      by (simp add: list_all_iff)
    show ?thesis
      unfolding run syncReleases_patches tw drain by simp
  qed
  moreover have "\<forall>call\<in>set (fst (SyncCluster p order cluster K)).
      \<exists>e\<in>set (rangeEntries rw order). call \<in> set (drainPatches K p sel (fst e))"
    unfolding run syncReleases_patches drain by (auto dest: set_takeWhileD)
  ultimately show ?thesis
    using assms(5) zero by (simp add: targetPercent_def)
qed

theorem SyncCluster_zero_total_weight_witness:
  "ListPods (exCluster exPodsShift []) (namespace (exShifter exZeros))
        [(AppLabel, appName (exShifter exZeros))] = Inr exPodsShift
   \<and> sumWeights (rangeEntries exZeros [''r1'', ''r2'']) = 0
   \<and> outcomeOf (SyncCluster (exShifter exZeros) [''r1'', ''r2''] ''cluster-1''
        (exCluster exPodsShift [])) [''r1'', ''r2'']
      = Some ([Some (Achieved 0), Some (Achieved 0)], [])
   \<and> targetPercent 50 (sumWeights (rangeEntries exZeros [''r1'', ''r2''])) = 0
   \<and> calculateReleasePodTarget 3 50 (length exPodsShift)
        (sumWeights (rangeEntries exZeros [''r1'', ''r2''])) = 0
   \<and> fst (SyncCluster (exShifter exZeros) [''r1'', ''r2''] ''cluster-1''
        (exCluster exPodsShift []))
      = concat (map (\<lambda>e. drainPatches (exCluster exPodsShift []) (exShifter exZeros)
                          exSelector (fst e))
                 (rangeEntries exZeros [''r1'', ''r2'']))
   \<and> length (concat (map (\<lambda>e. drainPatches (exCluster exPodsShift []) (exShifter exZeros)
                          exSelector (fst e))
                 (rangeEntries exZeros [''r1'', ''r2'']))) = 3"
proof -
  have pods: "ListPods (exCluster exPodsShift []) (namespace (exShifter exZeros))
        [(AppLabel, appName (exShifter exZeros))] = Inr exPodsShift"
    by (simp add: ex_traffic_defs label_defs)
  have zero: "sumWeights (rangeEntries exZeros [''r1'', ''r2'']) = 0"
    by code_simp
  have out: "outcomeOf (SyncCluster (exShifter exZeros) [''r1'', ''r2''] ''cluster-1''
        (exCluster exPodsShift [])) [''r1'', ''r2'']
      = Some ([Some (Achieved 0), Some (Achieved 0)], [])"
    by code_simp
  then obtain aw where aw: "snd (SyncCluster (exShifter exZeros) [''r1'', ''r2''] ''cluster-1''
        (exCluster exPodsShift [])) = Inr (aw, [])"
    by (rule outcomeOf_SomeD)
  have three: "length (concat (map (\<lambda>e. drainPatches (exCluster exPodsShift [])
       (exShifter exZeros) exSelector (fst e)) (rangeEntries exZeros [''r1'', ''r2'']))) = 3"
    by code_simp
  show ?thesis
    using pods zero out aw three
      SyncCluster_zero_total_weight [OF ex_prelude pods zero,
        where weight = 50 and releasePods = 3 and aw = aw and errs = "[]"]
    by simp
qed


text \<open>
  Claim C2, as stated: the achieved weight reported for a release is
  round(finalTrafficPods / totalPods * totalWeight) with halves rounded away from zero,
  finalTrafficPods being the number of the release's pods that carry traffic after the
  run. It fails in three ways.

  Where the release is at its target the run reports the release's own weight. In the
  first fleet r1 and r2 own one pod each, r1 has all of the weight 100, and its pod is the
  one that gets traffic: the run patches nothing, one of the two pods carries r1's traffic
  afterwards, and the run reports 100 for r1, where the formula gives 50.

  The number that enters the formula is the counter of the loop, which counts every pod
  the loop visits unless a call of \<^verbatim>\<open>Patch\<close> fails, also a pod that needs no patch. In
  the second fleet the application has two pods, a1 of r1 and b1 of r2, and a pod s1 of
  another application carries the release label of r1 and the traffic-status label
  \<^verbatim>\<open>Enabled\<close>. The target of r1 is 2 and one of its pods gets traffic; the loop visits
  s1, which needs no patch, and counts it. The run patches nothing, so one pod of r1
  carries traffic afterwards as before, and the run reports 100 for r1, where the formula
  gives 50.

  The formula is computed in \<^verbatim>\<open>float64\<close>, and its value there is not always that of
  the exact quotient. In the third fleet r1 owns seven of ten pods and has all of the
  weight 45; six of its pods get traffic, the run puts a7 in, and seven do afterwards.
  7 / 10 * 45 is 31.5, which rounds to 32; the \<^verbatim>\<open>float64\<close> product is less than 31.5
  and the run reports 31.
\<close>

theorem SyncCluster_achieved_weight_counterexample:
  "ListPods (exCluster exPodsLone []) (namespace (exShifter exWhole))
      [(AppLabel, appName (exShifter exWhole))] = Inr exPodsLone
   \<and> length exPodsLone = 2
   \<and> ListPods (exCluster exPodsLone []) (namespace (exShifter exWhole))
      [(ReleaseLabel, ''r1'')] = Inr [exPod ''a1'' ''r1'' Enabled]
   \<and> length (filter (\<lambda>pod. getsTraffic pod exSelector) [exPod ''a1'' ''r1'' Enabled]) = 1
   \<and> sumWeights (rangeEntries exWhole [''r1'', ''r2'']) = 100
   \<and> fst (SyncCluster (exShifter exWhole) [''r1'', ''r2''] ''cluster-1''
        (exCluster exPodsLone [])) = []
   \<and> outcomeOf (SyncCluster (exShifter exWhole) [''r1'', ''r2''] ''cluster-1''
        (exCluster exPodsLone [])) [''r1'', ''r2'']
      = Some ([Some (Achieved 100), Some (Achieved 0)], [])
   \<and> achievedWeight 1 2 100 = Achieved 50
   \<and> ListPods (exCluster exPodsStray []) (namespace (exShifter exWhole))
      [(AppLabel, appName (exShifter exWhole))]
      = Inr [exPod ''a1'' ''r1'' Enabled, exPod ''b1'' ''r2'' Disabled]
   \<and> ListPods (exCluster exPodsStray []) (namespace (exShifter exWhole))
      [(ReleaseLabel, ''r1'')] = Inr [exPod ''a1'' ''r1'' Enabled, exPodStray]
   \<and> filter (\<lambda>pod. getsTraffic pod exSelector) [exPod ''a1'' ''r1'' Enabled, exPodStray]
      = [exPod ''a1'' ''r1'' Enabled]
   \<and> calculateReleasePodTarget 2 100 2 100 = 2
   \<and> fst (SyncCluster (exShifter exWhole) [''r1'', ''r2''] ''cluster-1''
        (exCluster exPodsStray [])) = []
   \<and> outcomeOf (SyncCluster (exShifter exWhole) [''r1'', ''r2''] ''cluster-1''
        (exCluster exPodsStray [])) [''r1'', ''r2'']
      = Some ([Some (Achieved 100), Some (Achieved 0)], [])
   \<and> ListPods (exCluster exPodsTen []) (namespace (exShifter exFortyFive))
      [(AppLabel, appName (exShifter exFortyFive))] = Inr exPodsTen
   \<and> length exPodsTen = 10
   \<and> ListPods (exCluster exPodsTen []) (namespace (exShifter exFortyFive))
      [(ReleaseLabel, ''r1'')] = Inr exPodsSeven
   \<and> length (filter (\<lambda>pod. getsTraffic pod exSelector) exPodsSeven) = 6
   \<and> sumWeights (rangeEntries exFortyFive [''r1'', ''r2'']) = 45
   \<and> fst (SyncCluster (exShifter exFortyFive) [''r1'', ''r2''] ''cluster-1''
        (exCluster exPodsTen []))
      = [(''a7'', [\<lparr>Op = ''replace'', Path = ''/metadata/labels/traffic-status'',
                    Value = ''enabled''\<rparr>])]
   \<and> outcomeOf (SyncCluster (exShifter exFortyFive) [''r1'', ''r2''] ''cluster-1''
        (exCluster exPodsTen [])) [''r1'', ''r2'']
      = Some ([Some (Achieved 31), Some (Achieved 0)], [])
   \<and> (7 :: real) / 10 * 45 = 31 + 1 / 2
   \<and> float64_mul (float64_div 7 10) 45 < 31 + 1 / 2"
proof -
  have "ListPods (exCluster exPodsLone []) (namespace (exShifter exWhole))
      [(AppLabel, appName (exShifter exWhole))] = Inr exPodsLone
   \<and> ListPods (exCluster exPodsLone []) (namespace (exShifter exWhole))
      [(ReleaseLabel, ''r1'')] = Inr [exPod ''a1'' ''r1'' Enabled]"
    by (simp add: ex_traffic_defs exPodsLone_def label_defs)
  moreover have "length exPodsLone = 2
   \<and> length (filter (\<lambda>pod. getsTraffic pod exSelector) [exPod ''a1'' ''r1'' Enabled]) = 1
   \<and> sumWeights (rangeEntries exWhole [''r1'', ''r2'']) = 100
   \<and> fst (SyncCluster (exShifter exWhole) [''r1'', ''r2''] ''cluster-1''
        (exCluster exPodsLone [])) = []
   \<and> outcomeOf (SyncCluster (exShifter exWhole) [''r1'', ''r2''] ''cluster-1''
        (exCluster exPodsLone [])) [''r1'', ''r2'']
      = Some ([Some (Achieved 100), Some (Achieved 0)], [])
   \<and> achievedWeight 1 2 100 = Achieved 50"
    by code_simp
  moreover have "ListPods (exCluster exPodsStray []) (namespace (exShifter exWhole))
      [(AppLabel, appName (exShifter exWhole))]
      = Inr [exPod ''a1'' ''r1'' Enabled, exPod ''b1'' ''r2'' Disabled]
   \<and> ListPods (exCluster exPodsStray []) (namespace (exShifter exWhole))
      [(ReleaseLabel, ''r1'')] = Inr [exPod ''a1'' ''r1'' Enabled, exPodStray]
   \<and> filter (\<lambda>pod. getsTraffic pod exSelector) [exPod ''a1'' ''r1'' Enabled, exPodStray]
      = [exPod ''a1'' ''r1'' Enabled]"
    by (simp add: ex_traffic_defs exSelector_def label_defs)
  moreover have "calculateReleasePodTarget 2 100 2 100 = 2
   \<and> fst (SyncCluster (exShifter exWhole) [''r1'', ''r2''] ''cluster-1''
        (exCluster exPodsStray [])) = []
   \<and> outcomeOf (SyncCluster (exShifter exWhole) [''r1'', ''r2''] ''cluster-1''
        (exCluster exPodsStray [])) [''r1'', ''r2'']
      = Some ([Some (Achieved 100), Some (Achieved 0)], [])"
    by code_simp
  moreover have "ListPods (exCluster exPodsTen []) (namespace (exShifter exFortyFive))
      [(AppLabel, appName (exShifter exFortyFive))] = Inr exPodsTen
   \<and> ListPods (exCluster exPodsTen []) (namespace (exShifter exFortyFive))
      [(ReleaseLabel, ''r1'')] = Inr exPodsSeven"
    by (simp add: ex_traffic_defs label_defs)
  moreover have "length exPodsTen = 10
   \<and> length (filter (\<lambda>pod. getsTraffic pod exSelector) exPodsSeven) = 6
   \<and> sumWeights (rangeEntries exFortyFive [''r1'', ''r2'']) = 45
   \<and> fst (SyncCluster (exShifter exFortyFive) [''r1'', ''r2''] ''cluster-1''
        (exCluster exPodsTen []))
      = [(''a7'', [\<lparr>Op = ''replace'', Path = ''/metadata/labels/traffic-status'',
                    Value = ''enabled''\<rparr>])]
   \<and> outcomeOf (SyncCluster (exShifter exFortyFive) [''r1'', ''r2''] ''cluster-1''
        (exCluster exPodsTen [])) [''r1'', ''r2'']
      = Some ([Some (Achieved 31), Some (Achieved 0)], [])
   \<and> float64_mul (float64_div 7 10) 45 < 31 + 1 / 2"
    by code_simp
  ultimately show ?thesis
    by simp
qed

text \<open>
  Claim C2, amended: for every release of the table that a run without a fatal error
  visits, the map returned has an entry. When the number of the release's traffic pods
  equals its target number the entry is the release's weight. Otherwise, when the fleet is
  not empty, it is round(finalTrafficPods / totalPods * totalWeight) as \<^verbatim>\<open>float64\<close>
  computes it, cut to 32 bits: the quotient, the product and the sum with 0.5 are each
  rounded to the nearest \<^verbatim>\<open>float64\<close>, and the sum is truncated. Here finalTrafficPods
  is the number of traffic pods less the pods the first loop counted, or plus the pods the
  second loop counted: the pods it visited and for which no call of \<^verbatim>\<open>Patch\<close> failed.
  With an empty fleet the division is by zero and the value is left to the implementation.

  The number so computed is the exact quotient finalTrafficPods * totalWeight / totalPods
  rounded half away from zero whenever finalTrafficPods is at most totalPods, totalPods
  is below $2^{17}$ and the exact quotient is not an integer and a half; where it is an
  integer $k$ and a half, the number is $k$ or $k + 1$.
\<close>

theorem SyncCluster_achieved_weight:
  assumes "clusterReleaseWeights p cluster = Some rw"
    and "ListServices K (namespace p) (serviceSelector p) = Inr [svc]"
    and "SvcSelector svc = Some sel"
    and "ListPods K (namespace p) [(AppLabel, appName p)] = Inr pods"
    and "distinct order" and "release \<in> set order" and "rw release = Some weight"
    and "ListPods K (namespace p) [(ReleaseLabel, release)] = Inr releasePods"
    and "SyncCluster p order cluster K = (calls, Inr (aw, errs))"
  shows "aw release = Some
     (if length (filter (\<lambda>pod. getsTraffic pod sel) releasePods) =
           calculateReleasePodTarget (length releasePods) weight (length pods)
             (sumWeights (rangeEntries rw order))
      then Achieved weight
      else if length pods = 0 then ImplementationDependent
      else Achieved (word_of_int
             \<lfloor>float64_add
                (float64_mul
                   (float64_div
                      (real (finalTrafficPods K (namespace p) sel
                         (calculateReleasePodTarget (length releasePods) weight (length pods)
                            (sumWeights (rangeEntries rw order))) releasePods))
                      (real (length pods)))
                   (real (unat (sumWeights (rangeEntries rw order)))))
                (1 / 2)\<rfloor>))
   \<and> (0 < totalPods \<and> final \<le> totalPods \<and> totalPods < 2 ^ 17 \<longrightarrow>
        (if 2 * totalPods dvd 2 * final * unat totalWeight + totalPods
         then \<lfloor>float64_add
                 (float64_mul (float64_div (real final) (real totalPods))
                    (real (unat (totalWeight :: uint32))))
                 (1 / 2)\<rfloor>
              \<in> {\<lfloor>real final * real (unat totalWeight) / real totalPods + 1 / 2\<rfloor> - 1,
                  \<lfloor>real final * real (unat totalWeight) / real totalPods + 1 / 2\<rfloor>}
         else \<lfloor>float64_add
                 (float64_mul (float64_div (real final) (real totalPods))
                    (real (unat totalWeight)))
                 (1 / 2)\<rfloor>
              = \<lfloor>real final * real (unat totalWeight) / real totalPods + 1 / 2\<rfloor>))"
proof -
  let ?tw = "sumWeights (rangeEntries rw order)"
  let ?target = "calculateReleasePodTarget (length releasePods) weight (length pods) ?tw"
  let ?final = "finalTrafficPods K (namespace p) sel ?target releasePods"
  let ?x = "float64_mul (float64_div (real ?final) (real (length pods))) (real (unat ?tw))"
  have run: "snd (syncReleases K p cluster sel (length pods) ?tw (rangeEntries rw order)
         \<lparr>achievedWeights = Map.empty, errors = [], patches = []\<rparr>) = Inr (aw, errs)"
    using assms(9) SyncCluster_run [OF assms(1-4), of order] by simp
  have "(release, weight) \<in> set (rangeEntries rw order)"
    using assms(6,7) by (simp add: rangeEntries_set)
  then have "map_of (rangeEntries rw order) release = Some weight"
    using rangeEntries_distinct [OF assms(5)] by simp
  then have "aw release = releaseAchievedAt K p sel (length pods) ?tw (release, weight)"
    using syncReleases_achieved [OF run rangeEntries_distinct [OF assms(5)], of release]
    by simp
  then have entry: "aw release = Some
     (if length (filter (\<lambda>pod. getsTraffic pod sel) releasePods) = ?target
      then Achieved weight
      else if length pods = 0 then ImplementationDependent
      else Achieved (word_of_int (round' ?x)))"
    using assms(8)
    by (simp add: releaseAchievedAt_def podsOfRelease_def releaseAchieved_def trafficPodsOf_def
          achievedWeight_def Let_def)
  have "0 \<le> float64_div (real ?final) (real (length pods))"
    unfolding float64_div_def by (rule roundFloat64_nonneg) simp
  moreover have "0 \<le> real (unat ?tw)"
    by (rule of_nat_0_le_iff)
  ultimately have x: "0 \<le> ?x"
    unfolding float64_mul_def by (intro roundFloat64_nonneg mult_nonneg_nonneg)
  then have "0 \<le> float64_add ?x (1 / 2)"
    unfolding float64_add_def by (intro roundFloat64_nonneg) simp
  then have "round' ?x = \<lfloor>float64_add ?x (1 / 2)\<rfloor>"
    using x by (simp add: round'_def int_of_float64_def)
  then have first: "aw release = Some
     (if length (filter (\<lambda>pod. getsTraffic pod sel) releasePods) = ?target
      then Achieved weight
      else if length pods = 0 then ImplementationDependent
      else Achieved (word_of_int \<lfloor>float64_add ?x (1 / 2)\<rfloor>))"
    using entry by simp
  have second: "0 < totalPods \<and> final \<le> totalPods \<and> totalPods < 2 ^ 17 \<longrightarrow>
        (if 2 * totalPods dvd 2 * final * unat totalWeight + totalPods
         then \<lfloor>float64_add
                 (float64_mul (float64_div (real final) (real totalPods))
                    (real (unat totalWeight)))
                 (1 / 2)\<rfloor>
              \<in> {\<lfloor>real final * real (unat totalWeight) / real totalPods + 1 / 2\<rfloor> - 1,
                  \<lfloor>real final * real (unat totalWeight) / real totalPods + 1 / 2\<rfloor>}
         else \<lfloor>float64_add
                 (float64_mul (float64_div (real final) (real totalPods))
                    (real (unat totalWeight)))
                 (1 / 2)\<rfloor>
              = \<lfloor>real final * real (unat totalWeight) / real totalPods + 1 / 2\<rfloor>)"
  proof
    assume "0 < totalPods \<and> final \<le> totalPods \<and> totalPods < 2 ^ 17"
    then have h: "0 < totalPods" "final \<le> totalPods" "totalPods < 2 ^ 17"
      by simp_all
    show "if 2 * totalPods dvd 2 * final * unat totalWeight + totalPods
         then \<lfloor>float64_add
                 (float64_mul (float64_div (real final) (real totalPods))
                    (real (unat totalWeight)))
                 (1 / 2)\<rfloor>
              \<in> {\<lfloor>real final * real (unat totalWeight) / real totalPods + 1 / 2\<rfloor> - 1,
                  \<lfloor>real final * real (unat totalWeight) / real totalPods + 1 / 2\<rfloor>}
         else \<lfloor>float64_add
                 (float64_mul (float64_div (real final) (real totalPods))
                    (real (unat totalWeight)))
                 (1 / 2)\<rfloor>
              = \<lfloor>real final * real (unat totalWeight) / real totalPods + 1 / 2\<rfloor>"
      using achievedWeight_exact(2) [OF h, of totalWeight]
        achievedWeight_exact(3) [OF h, of totalWeight]
      by (cases "2 * totalPods dvd 2 * final * unat totalWeight + totalPods") auto
  qed
  show ?thesis
    using first second by (rule conjI)
qed

theorem SyncCluster_achieved_weight_witness:
  "ListPods (exCluster exPodsTen []) (namespace (exShifter exFortyFive))
      [(AppLabel, appName (exShifter exFortyFive))] = Inr exPodsTen
   \<and> distinct [''r1'', ''r2''] \<and> exFortyFive ''r1'' = Some 45
   \<and> ListPods (exCluster exPodsTen []) (namespace (exShifter exFortyFive))
      [(ReleaseLabel, ''r1'')] = Inr exPodsSeven
   \<and> outcomeOf (SyncCluster (exShifter exFortyFive) [''r1'', ''r2''] ''cluster-1''
        (exCluster exPodsTen [])) [''r1'', ''r2'']
      = Some ([Some (Achieved 31), Some (Achieved 0)], [])
   \<and> length (filter (\<lambda>pod. getsTraffic pod exSelector) exPodsSeven) = 6
   \<and> calculateReleasePodTarget (length exPodsSeven) 45 (length exPodsTen)
        (sumWeights (rangeEntries exFortyFive [''r1'', ''r2''])) = 7
   \<and> finalTrafficPods (exCluster exPodsTen []) ''ns'' exSelector 7 exPodsSeven = 7
   \<and> Achieved (word_of_int
         \<lfloor>float64_add
            (float64_mul (float64_div (real (7::nat)) (real (length exPodsTen)))
               (real (unat (sumWeights (rangeEntries exFortyFive [''r1'', ''r2''])))))
            (1 / 2)\<rfloor>)
      = Achieved 31
   \<and> (0::nat) < 10 \<and> (7::nat) \<le> 10 \<and> (10::nat) < 2 ^ 17
   \<and> (2::nat) * 10 dvd 2 * 7 * unat (45 :: uint32) + 10
   \<and> \<lfloor>float64_add (float64_mul (float64_div (real (7::nat)) (real (10::nat)))
          (real (unat (45 :: uint32)))) (1 / 2)\<rfloor> = 31
   \<and> \<lfloor>real (7::nat) * real (unat (45 :: uint32)) / real (10::nat) + 1 / 2\<rfloor> = 32"
proof -
  let ?K = "exCluster exPodsTen []"
  let ?p = "exShifter exFortyFive"
  have pods: "ListPods ?K (namespace ?p) [(AppLabel, appName ?p)] = Inr exPodsTen"
    by (simp add: ex_traffic_defs label_defs)
  have rp: "ListPods ?K (namespace ?p) [(ReleaseLabel, ''r1'')] = Inr exPodsSeven"
    by (simp add: ex_traffic_defs label_defs)
  have w: "exFortyFive ''r1'' = Some 45"
    by (simp add: exFortyFive_def)
  have out: "outcomeOf (SyncCluster ?p [''r1'', ''r2''] ''cluster-1'' ?K) [''r1'', ''r2'']
      = Some ([Some (Achieved 31), Some (Achieved 0)], [])"
    by code_simp
  then obtain aw where aw: "snd (SyncCluster ?p [''r1'', ''r2''] ''cluster-1'' ?K) =
      Inr (aw, [])"
    by (rule outcomeOf_SomeD)
  then have res: "SyncCluster ?p [''r1'', ''r2''] ''cluster-1'' ?K =
      (fst (SyncCluster ?p [''r1'', ''r2''] ''cluster-1'' ?K), Inr (aw, []))"
    by (simp add: prod_eq_iff)
  have vals: "length (filter (\<lambda>pod. getsTraffic pod exSelector) exPodsSeven) = 6
   \<and> calculateReleasePodTarget (length exPodsSeven) 45 (length exPodsTen)
        (sumWeights (rangeEntries exFortyFive [''r1'', ''r2''])) = 7
   \<and> finalTrafficPods ?K ''ns'' exSelector 7 exPodsSeven = 7
   \<and> Achieved (word_of_int
         \<lfloor>float64_add
            (float64_mul (float64_div (real (7::nat)) (real (length exPodsTen)))
               (real (unat (sumWeights (rangeEntries exFortyFive [''r1'', ''r2''])))))
            (1 / 2)\<rfloor>)
      = Achieved 31"
    by code_simp
  have tie: "(2::nat) * 10 dvd 2 * 7 * unat (45 :: uint32) + 10
   \<and> \<lfloor>float64_add (float64_mul (float64_div (real (7::nat)) (real (10::nat)))
          (real (unat (45 :: uint32)))) (1 / 2)\<rfloor> = 31
   \<and> \<lfloor>real (7::nat) * real (unat (45 :: uint32)) / real (10::nat) + 1 / 2\<rfloor> = 32"
    by code_simp
  have "distinct [''r1'', ''r2'']" and "''r1'' \<in> set [''r1'', ''r2'']"
    by simp_all
  then show ?thesis
    using pods rp w out vals tie
      SyncCluster_achieved_weight [OF ex_prelude pods _ _ w rp res,
        where final = 7 and totalPods = 10 and totalWeight = 45]
    by simp
qed

end
